theory Spec2Isabelle
  imports Main
begin

section \<open>GPTQ/AWQ to Marlin repacking (layers/marlin/gptq.py)\<close>

subsection \<open>Exceptions\<close>

text \<open>
  The Python exception classes that the module raises or catches. \<open>NotImplementedError\<close>
  is a subclass of \<open>RuntimeError\<close>, so an \<^verbatim>\<open>except RuntimeError\<close> clause catches both.
\<close>

datatype exc_class =
  Exception | RuntimeError | NotImplementedError | ValueError | AssertionError | IndexError

fun is_RuntimeError :: "exc_class \<Rightarrow> bool" where
  "is_RuntimeError RuntimeError = True"
| "is_RuntimeError NotImplementedError = True"
| "is_RuntimeError _ = False"

text \<open>
  The messages of the module's own \<^verbatim>\<open>raise\<close> statements, with the values their
  f-strings interpolate. \<open>External\<close> carries the text of an exception raised by code that
  is not in this module (torch, the kernel library, the weight storage).
\<close>

datatype message =
    UnsupportedBits int
      \<comment> \<open>"Repacking {bits}-bit GPTQ weights as Marlin is not supported, must be one of: 4, 8"\<close>
  | UnsupportedGroupSize int
      \<comment> \<open>"Repacking GPTQ weights with group size {groupsize} as Marlin is not supported, ..."\<close>
  | AsymmetricUnsupported
      \<comment> \<open>"Repacking GPTQ weights with asymmetric quantization as Marlin is not supported."\<close>
  | NotDivisible int int
      \<comment> \<open>"Number of input features ({in_features}) not divisible by group size ({groupsize})"\<close>
  | NumBitsMustBe4or8 int
      \<comment> \<open>"num_bits must be 4 or 8, got {}"\<close>
  | NoValidThreadConfig int int
      \<comment> \<open>"... no valid thread configuration for weight matrix with shape ({out_features}, {in_features}). ..."\<close>
  | CannotLoadForRepacking string
      \<comment> \<open>"Cannot load `{quantize}` weight for GPTQ -> Marlin repacking, make sure the model is already quantized"\<close>
  | CannotLoad string
      \<comment> \<open>"Cannot load `{quantize}` weight, make sure the model is already quantized"\<close>
  | NoMessage
      \<comment> \<open>a failed \<^verbatim>\<open>assert\<close> without a message\<close>
  | External string

datatype error = Raise exc_class message

fun exc_class_of :: "error \<Rightarrow> exc_class" where
  "exc_class_of (Raise c m) = c"

type_synonym ext_error = "exc_class \<times> string"

text \<open>What a call into external code yields: the exception it raised, or its value.\<close>

type_synonym 'a ext = "ext_error + 'a"

fun ext_raise :: "ext_error \<Rightarrow> error" where
  "ext_raise (c, s) = Raise c (External s)"

fun call_ext :: "'a ext \<Rightarrow> error + 'a" where
  "call_ext (Inl e) = Inl (ext_raise e)"
| "call_ext (Inr v) = Inr v"

text \<open>
  Sequencing: the first exception raised ends the computation, as in Python.
\<close>

fun and_then :: "error + 'a \<Rightarrow> ('a \<Rightarrow> error + 'b) \<Rightarrow> error + 'b" where
  "and_then (Inl e) f = Inl e"
| "and_then (Inr v) f = f v"

subsection \<open>Tensors\<close>

datatype dtype = Int32 | Int64 | Float16 | BFloat16 | Float32

text \<open>
  A tensor is its element type, its shape and its elements in row-major order. Elements
  are integers; for a floating-point tensor they stand for the stored bit patterns, which
  no operation of this module inspects. The device is not modelled.
\<close>

record tensor =
  dtype :: dtype
  shape :: "nat list"
  data :: "int list"

definition numel :: "tensor \<Rightarrow> nat" where
  "numel t = length (data t)"

text \<open>\<^verbatim>\<open>torch.empty(0, dtype=torch.int, device=...)\<close>\<close>

definition torch_empty_int :: tensor where
  "torch_empty_int = \<lparr>dtype = Int32, shape = [0], data = []\<rparr>"

text \<open>\<^verbatim>\<open>t.to(dtype)\<close>: the element type changes, the elements keep their positions.\<close>

definition to_dtype :: "tensor \<Rightarrow> dtype \<Rightarrow> tensor" where
  "to_dtype t d = t\<lparr>dtype := d\<rparr>"

text \<open>
  \<^verbatim>\<open>numpy.argsort\<close> of a one-dimensional array: the indices in ascending order of their
  values, equal values in their order of appearance. The source applies it to the two
  interleave lists only, whose values are distinct, so that the order of ties plays no
  part there.
\<close>

definition argsort :: "int list \<Rightarrow> nat list" where
  "argsort xs = sort_key (\<lambda>i. xs ! i) [0..<length xs]"

text \<open>
  \<^verbatim>\<open>t[idx]\<close> for one-dimensional \<open>t\<close> and an index tensor \<open>idx\<close>: a negative index counts
  from the end, an index out of range raises \<open>IndexError\<close>.
\<close>

definition index_tensor :: "tensor \<Rightarrow> tensor \<Rightarrow> error + tensor" where
  "index_tensor t idx =
     (let n = int (length (data t)) in
      if \<forall>i \<in> set (data idx). - n \<le> i \<and> i < n
      then Inr \<lparr>dtype = dtype t, shape = shape idx,
                data = map (\<lambda>i. data t ! nat (if i < 0 then n + i else i)) (data idx)\<rparr>
      else Inl (Raise IndexError (External ''index out of range'')))"

text \<open>
  \<^verbatim>\<open>t.reshape((-1, c))\<close>: torch infers the first dimension when \<open>c\<close> is positive and
  divides the number of elements, and raises a \<open>RuntimeError\<close> otherwise.
\<close>

definition reshape_rows :: "tensor \<Rightarrow> int \<Rightarrow> error + tensor" where
  "reshape_rows t c =
     (if 0 < c \<and> int (numel t) mod c = 0
      then Inr (t\<lparr>shape := [numel t div nat c, nat c]\<rparr>)
      else Inl (Raise RuntimeError (External ''shape is invalid for input size'')))"

text \<open>\<^verbatim>\<open>t[:, idx]\<close> on a two-dimensional tensor: every row is gathered by \<open>idx\<close>.\<close>

definition index_cols :: "tensor \<Rightarrow> nat list \<Rightarrow> error + tensor" where
  "index_cols t idx =
     (case shape t of
        [r, c] \<Rightarrow>
          if \<forall>j \<in> set idx. j < c
          then Inr (t\<lparr>shape := [r, length idx],
                      data := concat (map (\<lambda>b. map (\<lambda>j. data t ! (b * c + j)) idx) [0..<r])\<rparr>)
          else Inl (Raise IndexError (External ''index out of range''))
      | _ \<Rightarrow> Inl (Raise IndexError (External ''too many indices for tensor'')))"

text \<open>\<^verbatim>\<open>t.ravel()\<close>\<close>

definition ravel :: "tensor \<Rightarrow> tensor" where
  "ravel t = t\<lparr>shape := [numel t]\<rparr>"

subsection \<open>The environment: kernels, helpers of \<^verbatim>\<open>marlin.util\<close>, torch\<close>

text \<open>
  The native repack kernels (\<^verbatim>\<open>quantization.awq_marlin_repack\<close>,
  \<^verbatim>\<open>quantization.gptq_marlin_repack\<close>) and the helpers imported from
  \<^verbatim>\<open>text_generation_server.layers.marlin.util\<close> are not part of this module; they are
  parameters. The module global \<^verbatim>\<open>quantization\<close> is \<^verbatim>\<open>None\<close> unless the system is CUDA.
\<close>

record kernels =
  awq_marlin_repack :: "tensor \<Rightarrow> int \<Rightarrow> int \<Rightarrow> int \<Rightarrow> tensor ext"
  gptq_marlin_repack :: "tensor \<Rightarrow> tensor \<Rightarrow> int \<Rightarrow> int \<Rightarrow> int \<Rightarrow> tensor ext"

record env =
  check_marlin_kernels :: "ext_error option"
    \<comment> \<open>\<^verbatim>\<open>_check_marlin_kernels()\<close>: the exception it raises, if any\<close>
  quantization :: "kernels option"
  unpack_cols :: "tensor \<Rightarrow> int \<Rightarrow> int \<Rightarrow> int \<Rightarrow> tensor ext"
    \<comment> \<open>\<^verbatim>\<open>unpack_cols(packed_q_w, num_bits, size_k, size_n)\<close>\<close>
  marlin_zero_points :: "tensor \<Rightarrow> int \<Rightarrow> int \<Rightarrow> int \<Rightarrow> tensor ext"
    \<comment> \<open>\<^verbatim>\<open>marlin_zero_points(zp, size_k, size_n, num_bits)\<close>\<close>
  permute_scales :: "tensor \<Rightarrow> tensor ext"
  torch_cat :: "tensor list \<Rightarrow> nat \<Rightarrow> tensor ext"
    \<comment> \<open>\<^verbatim>\<open>torch.cat(tensors, dim=...)\<close>\<close>
  torch_argsort_indices :: "int list \<Rightarrow> nat list"
    \<comment> \<open>the indices \<^verbatim>\<open>torch.argsort\<close> returns for the values of a one-dimensional tensor\<close>

text \<open>
  \<^verbatim>\<open>torch.argsort(t)\<close> of a one-dimensional tensor, called as the source calls it, without
  \<^verbatim>\<open>stable=True\<close>: torch returns int64 indices that sort the values in ascending order and
  leaves the order of equal values open. Which indices it returns is therefore a parameter
  of the environment, and \<open>sorts_ascending\<close> is what torch documents of them.
\<close>

definition torch_argsort :: "env \<Rightarrow> tensor \<Rightarrow> tensor" where
  "torch_argsort E t =
     \<lparr>dtype = Int64, shape = [length (data t)],
      data = map int (torch_argsort_indices E (data t))\<rparr>"

definition sorts_ascending :: "int list \<Rightarrow> nat list \<Rightarrow> bool" where
  "sorts_ascending xs p \<longleftrightarrow>
     length p = length xs \<and> set p = {0..<length xs} \<and> distinct p
     \<and> sorted (map (\<lambda>i. xs ! i) p)"

subsection \<open>Constants\<close>

definition GPTQ_MARLIN_BITS :: "int list" where
  "GPTQ_MARLIN_BITS = [4, 8]"

definition GPTQ_MARLIN_GROUP_SIZES :: "int list" where
  "GPTQ_MARLIN_GROUP_SIZES = [- 1, 32, 64, 128]"

subsection \<open>\<^verbatim>\<open>GPTQMarlinWeight\<close>\<close>

record GPTQMarlinWeight =
  qweight :: tensor
  qzeros :: tensor
  scales :: tensor
  g_idx :: tensor
  perm :: tensor
  bits :: int
  is_full_k :: bool

text \<open>The dataclass constructor followed by \<^verbatim>\<open>__post_init__\<close> and its four assertions.\<close>

definition new_GPTQMarlinWeight ::
  "tensor \<Rightarrow> tensor \<Rightarrow> tensor \<Rightarrow> tensor \<Rightarrow> tensor \<Rightarrow> int \<Rightarrow> bool \<Rightarrow> error + GPTQMarlinWeight" where
  "new_GPTQMarlinWeight qw qz sc gi pm nbits full_k =
     (if dtype qw \<noteq> Int32 then Inl (Raise AssertionError NoMessage)
      else if dtype sc \<notin> {Float16, BFloat16} then Inl (Raise AssertionError NoMessage)
      else if dtype gi \<noteq> Int32 then Inl (Raise AssertionError NoMessage)
      else if dtype pm \<noteq> Int32 then Inl (Raise AssertionError NoMessage)
      else Inr \<lparr>qweight = qw, qzeros = qz, scales = sc, g_idx = gi, perm = pm,
                bits = nbits, is_full_k = full_k\<rparr>)"

subsection \<open>\<^verbatim>\<open>awq_to_marlin_zero_points\<close>\<close>

definition awq_to_marlin_zero_points :: "env \<Rightarrow> tensor \<Rightarrow> int \<Rightarrow> int \<Rightarrow> int \<Rightarrow> error + tensor" where
  "awq_to_marlin_zero_points E q_zp_packed size_k size_n num_bits =
     and_then (call_ext (unpack_cols E q_zp_packed num_bits size_k size_n)) (\<lambda>q_zp.
     and_then (if num_bits = 4 then Inr (argsort [0, 2, 4, 6, 1, 3, 5, 7])
               else if num_bits = 8 then Inr (argsort [0, 2, 1, 3])
               else Inl (Raise Exception (NumBitsMustBe4or8 num_bits))) (\<lambda>undo_interleave.
     and_then (reshape_rows q_zp (int (length undo_interleave))) (\<lambda>rows.
     and_then (index_cols rows undo_interleave) (\<lambda>cols.
     and_then (reshape_rows (ravel cols) size_n) (\<lambda>q_zp'.
     call_ext (marlin_zero_points E q_zp' size_k size_n num_bits))))))"

subsection \<open>\<^verbatim>\<open>repack_gptq_for_marlin\<close>\<close>

text \<open>
  The arguments are, in the order of the source's keyword parameters read as
  \<open>qweight\<close>, \<open>qzeros\<close>, \<open>scales\<close>, \<open>g_idx\<close>, \<open>bits\<close>, \<open>desc_act\<close>, \<open>groupsize\<close>,
  \<open>quant_method\<close>, \<open>sym\<close> (here \<open>symmetric\<close>), \<open>sharded_infeatures\<close>. \<open>g_idx\<close> is a one-dimensional tensor
  when present.
\<close>

definition repack_gptq_for_marlin ::
  "env \<Rightarrow> tensor \<Rightarrow> tensor option \<Rightarrow> tensor \<Rightarrow> tensor option \<Rightarrow> int \<Rightarrow> bool \<Rightarrow> int \<Rightarrow>
     string \<Rightarrow> bool \<Rightarrow> bool \<Rightarrow> error + GPTQMarlinWeight" where
  "repack_gptq_for_marlin E qw qz sc gi nbits desc_act groupsize quant_method symmetric sharded_infeatures =
     and_then (case check_marlin_kernels E of Some e \<Rightarrow> Inl (ext_raise e) | None \<Rightarrow> Inr ()) (\<lambda>_.
     and_then (case quantization E of None \<Rightarrow> Inl (Raise AssertionError NoMessage)
               | Some Q \<Rightarrow> Inr Q) (\<lambda>Q.
     if nbits \<notin> set GPTQ_MARLIN_BITS then Inl (Raise RuntimeError (UnsupportedBits nbits))
     else if groupsize \<notin> set GPTQ_MARLIN_GROUP_SIZES
       then Inl (Raise RuntimeError (UnsupportedGroupSize groupsize))
     else if \<not> (symmetric \<or> quant_method = ''awq'' \<or> quant_method = ''compressed-tensors'')
       then Inl (Raise RuntimeError AsymmetricUnsupported)
     else
     and_then (case shape qw of s0 # s1 # _ \<Rightarrow> Inr (int s0, int s1)
               | _ \<Rightarrow> Inl (Raise IndexError (External ''tuple index out of range'')))
       (\<lambda>(shape0, shape1).
     let weights_per_int = 32 div nbits;
         in_features = (if quant_method = ''awq'' then shape0 else shape0 * weights_per_int);
         out_features = (if quant_method = ''awq'' then shape1 * weights_per_int else shape1)
     in
     if in_features mod groupsize \<noteq> 0
       then Inl (Raise ValueError (NotDivisible in_features groupsize))
     else
     and_then (if gi \<noteq> None \<and> desc_act \<and> groupsize \<noteq> - 1
               then (let pm = to_dtype (torch_argsort E (the gi)) Int32 in
                     and_then (index_tensor (the gi) pm) (\<lambda>gi'. Inr (pm, gi')))
               else Inr (torch_empty_int, torch_empty_int)) (\<lambda>(pm, gi').
     and_then (if quant_method = ''awq''
               then and_then (call_ext (awq_marlin_repack Q qw in_features out_features nbits))
                      (\<lambda>repacked.
                    and_then (case qz of
                                Some z \<Rightarrow>
                                  and_then (awq_to_marlin_zero_points E z
                                              (in_features div groupsize) out_features nbits)
                                    (\<lambda>z'. Inr (Some z'))
                              | None \<Rightarrow> Inr None) (\<lambda>qz'.
                    Inr (repacked, qz')))
               else and_then (call_ext (gptq_marlin_repack Q qw pm in_features out_features nbits))
                      (\<lambda>repacked. Inr (repacked, qz))) (\<lambda>(repacked, qz').
     let qzeros' = (case qz' of None \<Rightarrow> torch_empty_int | Some z \<Rightarrow> z) in
     and_then (call_ext (permute_scales E sc)) (\<lambda>scales'.
     let full_k = (\<not> (desc_act \<and> groupsize \<noteq> - 1 \<and> sharded_infeatures)) in
     new_GPTQMarlinWeight repacked qzeros' scales' gi' pm nbits full_k))))))"

subsection \<open>\<^verbatim>\<open>_check_valid_shape\<close>\<close>

definition check_valid_shape :: "int \<Rightarrow> int \<Rightarrow> error + unit" where
  "check_valid_shape in_features out_features =
     (if (in_features mod 128 \<noteq> 0 \<or> out_features mod 64 \<noteq> 0)
         \<and> (in_features mod 64 \<noteq> 0 \<or> out_features mod 128 \<noteq> 0)
      then Inl (Raise ValueError (NoValidThreadConfig out_features in_features))
      else Inr ())"

text \<open>
  The values of the local variables \<^verbatim>\<open>in_features\<close> and \<^verbatim>\<open>out_features\<close> of
  \<^verbatim>\<open>repack_gptq_for_marlin\<close> once the packing has been accounted for (AWQ packs along
  the columns, every other method along the rows), from \<open>qweight.shape[0]\<close> and
  \<open>qweight.shape[1]\<close>.
\<close>

definition in_features_of :: "string \<Rightarrow> int \<Rightarrow> nat \<Rightarrow> int" where
  "in_features_of quant_method nbits shape0 =
     (if quant_method = ''awq'' then int shape0 else int shape0 * (32 div nbits))"

definition out_features_of :: "string \<Rightarrow> int \<Rightarrow> nat \<Rightarrow> int" where
  "out_features_of quant_method nbits shape1 =
     (if quant_method = ''awq'' then int shape1 * (32 div nbits) else int shape1)"

subsection \<open>\<^verbatim>\<open>GPTQMarlinWeightsLoader\<close>\<close>

record GPTQMarlinWeightsLoader =
  self_bits :: int
  self_desc_act :: bool
  self_groupsize :: int
  self_quant_method :: string
  self_quantize :: string
  self_sym :: bool

text \<open>
  The weight storage (\<^verbatim>\<open>text_generation_server.utils.weights.Weights\<close>) is not part of
  this module: its lookups are parameters, each yielding a tensor or the exception it
  raised.
\<close>

datatype block_sizes = BlockSize int | BlockSizes "int list"

record Weights =
  get_tensor :: "string \<Rightarrow> tensor ext"
  get_sharded :: "string \<Rightarrow> nat \<Rightarrow> tensor ext"
  get_packed_sharded :: "string \<Rightarrow> nat \<Rightarrow> block_sizes \<Rightarrow> tensor ext"
  process_group_size :: nat
  weights_dtype :: dtype

text \<open>\<^verbatim>\<open>try: m  except RuntimeError: raise e'\<close>\<close>

fun except_RuntimeError :: "error + 'a \<Rightarrow> error \<Rightarrow> error + 'a" where
  "except_RuntimeError (Inl e) e' = (if is_RuntimeError (exc_class_of e) then Inl e' else Inl e)"
| "except_RuntimeError (Inr v) e' = Inr v"

text \<open>A list comprehension whose element expression may raise.\<close>

fun comprehension :: "('a \<Rightarrow> error + 'b) \<Rightarrow> 'a list \<Rightarrow> error + 'b list" where
  "comprehension f [] = Inr []"
| "comprehension f (x # xs) =
     and_then (f x) (\<lambda>y. and_then (comprehension f xs) (\<lambda>ys. Inr (y # ys)))"

text \<open>
  \<^verbatim>\<open>torch.testing.assert_close(actual, expected)\<close> on integer tensors: shape, element type
  and every element must agree.
\<close>

definition assert_close :: "tensor \<Rightarrow> tensor \<Rightarrow> error + unit" where
  "assert_close actual expected =
     (if actual = expected then Inr ()
      else Inl (Raise AssertionError (External ''Tensor-likes are not equal'')))"

definition get_weights ::
  "env \<Rightarrow> GPTQMarlinWeightsLoader \<Rightarrow> Weights \<Rightarrow> string \<Rightarrow> error + GPTQMarlinWeight" where
  "get_weights E self weights pfx =
     and_then (except_RuntimeError (call_ext (get_tensor weights (pfx @ ''.qweight'')))
                 (Raise RuntimeError (CannotLoadForRepacking (self_quantize self)))) (\<lambda>qw.
     and_then (if \<not> self_sym self
               then and_then (call_ext (get_tensor weights (pfx @ ''.qzeros''))) (\<lambda>z. Inr (Some z))
               else Inr None) (\<lambda>qz.
     and_then (if self_quant_method self = ''awq'' then Inr None
               else and_then (call_ext (get_tensor weights (pfx @ ''.g_idx''))) (\<lambda>g. Inr (Some g)))
       (\<lambda>gi.
     and_then (call_ext (get_tensor weights (pfx @ ''.scales''))) (\<lambda>sc.
     repack_gptq_for_marlin E qw qz sc gi (self_bits self) (self_desc_act self)
       (self_groupsize self) (self_quant_method self) (self_sym self) False))))"

definition get_weights_col_packed ::
  "env \<Rightarrow> GPTQMarlinWeightsLoader \<Rightarrow> Weights \<Rightarrow> string \<Rightarrow> block_sizes \<Rightarrow>
     error + GPTQMarlinWeight" where
  "get_weights_col_packed E self weights pfx bs =
     and_then (except_RuntimeError (call_ext (get_packed_sharded weights (pfx @ ''.qweight'') 1 bs))
                 (Raise RuntimeError (CannotLoad (self_quantize self)))) (\<lambda>qw.
     and_then (call_ext (get_packed_sharded weights (pfx @ ''.scales'') 1 bs)) (\<lambda>sc0.
     let sc = to_dtype sc0 (weights_dtype weights) in
     and_then (if \<not> self_sym self
               then and_then (call_ext (get_packed_sharded weights (pfx @ ''.qzeros'') 1 bs))
                      (\<lambda>z. Inr (Some z))
               else Inr None) (\<lambda>qz.
     and_then (if self_quant_method self = ''awq'' then Inr None
               else and_then (call_ext (get_tensor weights (pfx @ ''.g_idx''))) (\<lambda>g. Inr (Some g)))
       (\<lambda>gi.
     repack_gptq_for_marlin E qw qz sc gi (self_bits self) (self_desc_act self)
       (self_groupsize self) (self_quant_method self) (self_sym self) False))))"

text \<open>
  \<^verbatim>\<open>torch.cat([weights.get_sharded(f"{p}.<name>", dim=1) for p in prefixes], dim=1)\<close>, the
  expression \<^verbatim>\<open>get_multi_weights_col\<close> evaluates for \<open>qweight\<close>, \<open>scales\<close> and
  \<open>qzeros\<close>.
\<close>

definition cat_sharded :: "env \<Rightarrow> Weights \<Rightarrow> string list \<Rightarrow> string \<Rightarrow> error + tensor" where
  "cat_sharded E weights prefixes name =
     and_then (comprehension (\<lambda>p. call_ext (get_sharded weights (p @ name) 1)) prefixes)
       (\<lambda>ts. call_ext (torch_cat E ts 1))"

definition get_multi_weights_col ::
  "env \<Rightarrow> GPTQMarlinWeightsLoader \<Rightarrow> Weights \<Rightarrow> string list \<Rightarrow> int \<Rightarrow>
     error + GPTQMarlinWeight" where
  "get_multi_weights_col E self weights prefixes dim =
     and_then (except_RuntimeError (cat_sharded E weights prefixes ''.qweight'')
                 (Raise RuntimeError (CannotLoad (self_quantize self)))) (\<lambda>qw.
     and_then (cat_sharded E weights prefixes ''.scales'') (\<lambda>sc.
     and_then (if \<not> self_sym self
               then and_then (cat_sharded E weights prefixes ''.qzeros'') (\<lambda>z. Inr (Some z))
               else Inr None) (\<lambda>qz.
     and_then (if self_quant_method self = ''awq'' then Inr None
               else and_then (comprehension (\<lambda>p. call_ext (get_tensor weights (p @ ''.g_idx'')))
                                prefixes) (\<lambda>w.
                    and_then (comprehension (\<lambda>w2. assert_close w2 (hd w)) (tl w)) (\<lambda>_.
                    case w of
                      [] \<Rightarrow> Inl (Raise IndexError (External ''list index out of range''))
                    | w0 # _ \<Rightarrow> Inr (Some w0)))) (\<lambda>gi.
     repack_gptq_for_marlin E qw qz sc gi (self_bits self) (self_desc_act self)
       (self_groupsize self) (self_quant_method self) (self_sym self) False))))"

definition get_weights_row ::
  "env \<Rightarrow> GPTQMarlinWeightsLoader \<Rightarrow> Weights \<Rightarrow> string \<Rightarrow> error + GPTQMarlinWeight" where
  "get_weights_row E self weights pfx =
     and_then (except_RuntimeError (call_ext (get_sharded weights (pfx @ ''.qweight'') 0))
                 (Raise RuntimeError (CannotLoadForRepacking (self_quantize self)))) (\<lambda>qw.
     and_then (if \<not> self_sym self
               then and_then
                      (if self_desc_act self \<or> self_groupsize self = - 1
                       then call_ext (get_tensor weights (pfx @ ''.qzeros''))
                       else call_ext (get_sharded weights (pfx @ ''.qzeros'') 0))
                      (\<lambda>z. Inr (Some z))
               else Inr None) (\<lambda>qz.
     and_then (if self_quant_method self = ''awq'' then Inr None
               else and_then (call_ext (get_sharded weights (pfx @ ''.g_idx'') 0))
                      (\<lambda>g. Inr (Some g))) (\<lambda>gi.
     and_then (if self_desc_act self \<or> self_groupsize self = - 1
               then call_ext (get_tensor weights (pfx @ ''.scales''))
               else call_ext (get_sharded weights (pfx @ ''.scales'') 0)) (\<lambda>sc.
     let sharded_in_features = (process_group_size weights > 1) in
     repack_gptq_for_marlin E qw qz sc gi (self_bits self) (self_desc_act self)
       (self_groupsize self) (self_quant_method self) (self_sym self) sharded_in_features))))"

subsection \<open>A concrete environment for evaluation\<close>

text \<open>
  Every theorem below holds for all environments. To evaluate the definitions on concrete
  inputs, the parameters are instantiated here: the two weight kernels and
  \<open>permute_scales\<close> hand their tensor back (as int32 for the kernels),
  \<open>unpack_cols\<close> expands every 32-bit word into its \<open>32 / bits\<close> fields (lowest
  field first), \<open>marlin_zero_points\<close> packs the fields back in the interleaved lane order,
  \<open>torch.cat\<close> accepts a single tensor, and \<open>torch.argsort\<close> keeps equal values in
  their order of appearance.
\<close>

definition sample_kernels :: kernels where
  "sample_kernels =
     \<lparr>awq_marlin_repack = (\<lambda>q k n b. Inr (to_dtype q Int32)),
      gptq_marlin_repack = (\<lambda>q p k n b. Inr (to_dtype q Int32))\<rparr>"

definition sample_unpack_cols :: "tensor \<Rightarrow> int \<Rightarrow> int \<Rightarrow> int \<Rightarrow> tensor ext" where
  "sample_unpack_cols t b k n =
     (if 0 < b \<and> b \<le> 32 \<and> shape t = [nat k, nat (n div (32 div b))]
      then Inr \<lparr>dtype = Int32, shape = [nat k, nat n],
                data = concat (map (\<lambda>w. map (\<lambda>i. (w div 2 ^ (nat b * i)) mod 2 ^ nat b)
                                           [0..<nat (32 div b)]) (data t))\<rparr>
      else Inl (AssertionError, ''packed_q_w.shape''))"

definition sample_marlin_zero_points :: "tensor \<Rightarrow> int \<Rightarrow> int \<Rightarrow> int \<Rightarrow> tensor ext" where
  "sample_marlin_zero_points q k n b =
     (let lanes = (if b = 4 then [0, 2, 4, 6, 1, 3, 5, 7] else [0, 2, 1, 3]);
          pf = length lanes
      in Inr \<lparr>dtype = Int32, shape = [nat k, nat n div pf],
                data = map (\<lambda>j. foldr (\<lambda>i acc. data q ! (j * pf + i) + 2 ^ nat b * acc) lanes 0)
                         [0..<length (data q) div pf]\<rparr>)"

definition sample_torch_cat :: "tensor list \<Rightarrow> nat \<Rightarrow> tensor ext" where
  "sample_torch_cat ts d =
     (case ts of [t] \<Rightarrow> Inr t | _ \<Rightarrow> Inl (RuntimeError, ''torch.cat(): unsupported list''))"

definition sample_env :: env where
  "sample_env =
     \<lparr>check_marlin_kernels = None,
      quantization = Some sample_kernels,
      unpack_cols = sample_unpack_cols,
      marlin_zero_points = sample_marlin_zero_points,
      permute_scales = (\<lambda>s. Inr s),
      torch_cat = sample_torch_cat,
      torch_argsort_indices = argsort\<rparr>"

text \<open>
  Another sorting order that \<^verbatim>\<open>torch.argsort\<close> may return: ascending by value, equal
  values in descending order of their index. The environment \<open>reverse_tie_env\<close> differs
  from \<open>sample_env\<close> in this only.
\<close>

definition argsort_reverse_ties :: "int list \<Rightarrow> nat list" where
  "argsort_reverse_ties xs = sort_key (\<lambda>i. xs ! i) (rev [0..<length xs])"

definition reverse_tie_env :: env where
  "reverse_tie_env = sample_env\<lparr>torch_argsort_indices := argsort_reverse_ties\<rparr>"

text \<open>
  An environment without the kernels: \<^verbatim>\<open>_check_marlin_kernels()\<close> raises and the module
  global \<^verbatim>\<open>quantization\<close> is \<^verbatim>\<open>None\<close>, as on a system that is not CUDA.
\<close>

definition no_kernels_env :: env where
  "no_kernels_env =
     sample_env\<lparr>check_marlin_kernels := Some (NotImplementedError, ''marlin kernels unavailable''),
                quantization := None\<rparr>"

text \<open>
  A storage over an association list. A name that is not stored raises a
  \<open>RuntimeError\<close>, the class the loader's \<^verbatim>\<open>except\<close> clauses catch.
\<close>

definition storage_lookup :: "(string \<times> tensor) list \<Rightarrow> string \<Rightarrow> tensor ext" where
  "storage_lookup m name =
     (case map_of m name of
        None \<Rightarrow> Inl (RuntimeError, ''weight '' @ name @ '' does not exist'')
      | Some t \<Rightarrow> Inr t)"

definition storage_weights :: "(string \<times> tensor) list \<Rightarrow> Weights" where
  "storage_weights m =
     \<lparr>get_tensor = storage_lookup m,
      get_sharded = (\<lambda>name d. storage_lookup m name),
      get_packed_sharded = (\<lambda>name d bs. storage_lookup m name),
      process_group_size = 1,
      weights_dtype = Float16\<rparr>"

text \<open>Small tensors: a packed weight of one word, one scale, one packed zero-point word.\<close>

definition sample_qweight :: tensor where
  "sample_qweight = \<lparr>dtype = Int32, shape = [1, 1], data = [305419896]\<rparr>"

definition sample_scales :: tensor where
  "sample_scales = \<lparr>dtype = Float16, shape = [1, 1], data = [15360]\<rparr>"

definition sample_qzeros :: tensor where
  "sample_qzeros = \<lparr>dtype = Int32, shape = [1, 1], data = [1985229328]\<rparr>"

definition sample_loader :: "string \<Rightarrow> bool \<Rightarrow> GPTQMarlinWeightsLoader" where
  "sample_loader method symm =
     \<lparr>self_bits = 4, self_desc_act = False, self_groupsize = - 1,
      self_quant_method = method, self_quantize = method, self_sym = symm\<rparr>"

text \<open>A packed weight of four rows: 32 input features at 4 bits.\<close>

definition sample_qweight_rows4 :: tensor where
  "sample_qweight_rows4 = \<lparr>dtype = Int32, shape = [4, 1], data = [305419896, 0, 1, 2]\<rparr>"

text \<open>
  A packed weight of four rows and eight columns (32 input features, 8 output features at
  4 bits), its scales, and a packed zero-point word whose second field is 1.
\<close>

definition sample_qweight_4x8 :: tensor where
  "sample_qweight_4x8 = \<lparr>dtype = Int32, shape = [4, 8], data = replicate 32 305419896\<rparr>"

definition sample_scales_1x8 :: tensor where
  "sample_scales_1x8 = \<lparr>dtype = Float16, shape = [1, 8], data = replicate 8 15360\<rparr>"

definition sample_qzeros_lane1 :: tensor where
  "sample_qzeros_lane1 = \<lparr>dtype = Int32, shape = [1, 1], data = [16]\<rparr>"

text \<open>
  A packed weight of eight rows (64 input features at 4 bits, two groups of 32) with a
  group index in activation order: the odd input features belong to group 0, the even
  ones to group 1.
\<close>

definition sample_qweight_rows8 :: tensor where
  "sample_qweight_rows8 =
     \<lparr>dtype = Int32, shape = [8, 1], data = [305419896, 0, 1, 2, 3, 4, 5, 6]\<rparr>"

definition sample_scales_2x1 :: tensor where
  "sample_scales_2x1 = \<lparr>dtype = Float16, shape = [2, 1], data = [15360, 14336]\<rparr>"

definition sample_g_idx_data :: "int list" where
  "sample_g_idx_data =
     [1, 0, 1, 0, 1, 0, 1, 0, 1, 0, 1, 0, 1, 0, 1, 0,
      1, 0, 1, 0, 1, 0, 1, 0, 1, 0, 1, 0, 1, 0, 1, 0,
      1, 0, 1, 0, 1, 0, 1, 0, 1, 0, 1, 0, 1, 0, 1, 0,
      1, 0, 1, 0, 1, 0, 1, 0, 1, 0, 1, 0, 1, 0, 1, 0]"

definition sample_g_idx :: tensor where
  "sample_g_idx = \<lparr>dtype = Int32, shape = [64], data = sample_g_idx_data\<rparr>"

section \<open>Properties\<close>

subsection \<open>Sequencing and exceptions\<close>

lemma and_then_Inr_iff: "and_then m f = Inr w \<longleftrightarrow> (\<exists>x. m = Inr x \<and> f x = Inr w)"
  by (cases m) auto

lemma and_then_Inl_iff:
  "and_then m f = Inl e \<longleftrightarrow> m = Inl e \<or> (\<exists>x. m = Inr x \<and> f x = Inl e)"
  by (cases m) auto

lemma call_ext_Inl_External: "call_ext m = Inl e \<Longrightarrow> \<exists>c s. e = Raise c (External s)"
  by (cases m) (auto elim: ext_raise.elims)

subsection \<open>The validation gate of \<^verbatim>\<open>repack_gptq_for_marlin\<close>, check by check\<close>

lemmas gate_defs = GPTQ_MARLIN_BITS_def GPTQ_MARLIN_GROUP_SIZES_def

lemma repack_kernels_unavailable:
  "check_marlin_kernels E = Some e \<Longrightarrow>
   repack_gptq_for_marlin E qw qz sc gi nbits da gs qm sy sh = Inl (ext_raise e)"
  by (simp add: repack_gptq_for_marlin_def)

lemma repack_no_quantization:
  "check_marlin_kernels E = None \<Longrightarrow> quantization E = None \<Longrightarrow>
   repack_gptq_for_marlin E qw qz sc gi nbits da gs qm sy sh = Inl (Raise AssertionError NoMessage)"
  by (simp add: repack_gptq_for_marlin_def)

lemma repack_bad_bits:
  "check_marlin_kernels E = None \<Longrightarrow> quantization E = Some Q \<Longrightarrow> nbits \<notin> {4, 8} \<Longrightarrow>
   repack_gptq_for_marlin E qw qz sc gi nbits da gs qm sy sh
     = Inl (Raise RuntimeError (UnsupportedBits nbits))"
  by (simp add: repack_gptq_for_marlin_def gate_defs)

lemma repack_bad_groupsize:
  "check_marlin_kernels E = None \<Longrightarrow> quantization E = Some Q \<Longrightarrow> nbits \<in> {4, 8} \<Longrightarrow>
   gs \<notin> {- 1, 32, 64, 128} \<Longrightarrow>
   repack_gptq_for_marlin E qw qz sc gi nbits da gs qm sy sh
     = Inl (Raise RuntimeError (UnsupportedGroupSize gs))"
  by (simp add: repack_gptq_for_marlin_def gate_defs)

lemma repack_asymmetric:
  "check_marlin_kernels E = None \<Longrightarrow> quantization E = Some Q \<Longrightarrow> nbits \<in> {4, 8} \<Longrightarrow>
   gs \<in> {- 1, 32, 64, 128} \<Longrightarrow> \<not> (sy \<or> qm = ''awq'' \<or> qm = ''compressed-tensors'') \<Longrightarrow>
   repack_gptq_for_marlin E qw qz sc gi nbits da gs qm sy sh
     = Inl (Raise RuntimeError AsymmetricUnsupported)"
  by (simp add: repack_gptq_for_marlin_def gate_defs)

lemma repack_bad_shape:
  "check_marlin_kernels E = None \<Longrightarrow> quantization E = Some Q \<Longrightarrow> nbits \<in> {4, 8} \<Longrightarrow>
   gs \<in> {- 1, 32, 64, 128} \<Longrightarrow> sy \<or> qm = ''awq'' \<or> qm = ''compressed-tensors'' \<Longrightarrow>
   length (shape qw) < 2 \<Longrightarrow>
   repack_gptq_for_marlin E qw qz sc gi nbits da gs qm sy sh
     = Inl (Raise IndexError (External ''tuple index out of range''))"
  by (cases "shape qw"; cases "tl (shape qw)")
     (simp_all add: repack_gptq_for_marlin_def gate_defs)

lemma repack_not_divisible:
  "check_marlin_kernels E = None \<Longrightarrow> quantization E = Some Q \<Longrightarrow> nbits \<in> {4, 8} \<Longrightarrow>
   gs \<in> {- 1, 32, 64, 128} \<Longrightarrow> sy \<or> qm = ''awq'' \<or> qm = ''compressed-tensors'' \<Longrightarrow>
   shape qw = s0 # s1 # rest \<Longrightarrow> in_features_of qm nbits s0 mod gs \<noteq> 0 \<Longrightarrow>
   repack_gptq_for_marlin E qw qz sc gi nbits da gs qm sy sh
     = Inl (Raise ValueError (NotDivisible (in_features_of qm nbits s0) gs))"
  by (cases "qm = ''awq''")
     (simp_all add: repack_gptq_for_marlin_def gate_defs in_features_of_def Let_def)

lemma repack_gates_pass:
  assumes "repack_gptq_for_marlin E qw qz sc gi nbits da gs qm sy sh = Inr w"
  shows "\<exists>Q s0 s1 rest.
      check_marlin_kernels E = None \<and> quantization E = Some Q
    \<and> nbits \<in> {4, 8} \<and> gs \<in> {- 1, 32, 64, 128}
    \<and> (sy \<or> qm = ''awq'' \<or> qm = ''compressed-tensors'')
    \<and> shape qw = s0 # s1 # rest
    \<and> in_features_of qm nbits s0 mod gs = 0"
proof -
  have c: "check_marlin_kernels E = None"
    using assms repack_kernels_unavailable [of E _ qw qz sc gi nbits da gs qm sy sh]
    by (cases "check_marlin_kernels E") auto
  then obtain Q where q: "quantization E = Some Q"
    using assms repack_no_quantization [of E qw qz sc gi nbits da gs qm sy sh]
    by (cases "quantization E") auto
  have b: "nbits \<in> {4, 8}"
    using assms repack_bad_bits [OF c q, of nbits qw qz sc gi da gs qm sy sh] by auto
  have g: "gs \<in> {- 1, 32, 64, 128}"
    using assms repack_bad_groupsize [OF c q b, of gs qw qz sc gi da qm sy sh] by auto
  have a: "sy \<or> qm = ''awq'' \<or> qm = ''compressed-tensors''"
  proof (rule ccontr)
    assume n: "\<not> (sy \<or> qm = ''awq'' \<or> qm = ''compressed-tensors'')"
    from repack_asymmetric [OF c q b g n, of qw qz sc gi da sh] assms show False by simp
  qed
  have "\<not> length (shape qw) < 2"
    using assms repack_bad_shape [OF c q b g a, of qw qz sc gi da sh] by auto
  then obtain s0 s1 rest where s: "shape qw = s0 # s1 # rest"
    by (cases "shape qw"; cases "tl (shape qw)") auto
  have d: "in_features_of qm nbits s0 mod gs = 0"
    using assms repack_not_divisible [OF c q b g a s, of qz sc gi da sh] by auto
  show ?thesis
    by (rule exI [of _ Q], rule exI [of _ s0], rule exI [of _ s1], rule exI [of _ rest])
       (simp only: c q b g a s d simp_thms)
qed

lemma repack_Inr_D:
  assumes "repack_gptq_for_marlin E qw qz sc gi nbits da gs qm sy sh = Inr w"
    and "quantization E = Some Q" and "shape qw = s0 # s1 # rest"
  shows "(if gi \<noteq> None \<and> da \<and> gs \<noteq> - 1
          then perm w = to_dtype (torch_argsort E (the gi)) Int32
             \<and> index_tensor (the gi) (perm w) = Inr (g_idx w)
          else perm w = torch_empty_int \<and> g_idx w = torch_empty_int)"
    and "(if qm = ''awq''
          then (case qz of
                  Some z \<Rightarrow> awq_to_marlin_zero_points E z (in_features_of qm nbits s0 div gs)
                              (out_features_of qm nbits s1) nbits = Inr (qzeros w)
                | None \<Rightarrow> qzeros w = torch_empty_int)
          else qzeros w = (case qz of None \<Rightarrow> torch_empty_int | Some z \<Rightarrow> z))"
    and "call_ext (if qm = ''awq''
            then awq_marlin_repack Q qw (in_features_of qm nbits s0) (out_features_of qm nbits s1) nbits
            else gptq_marlin_repack Q qw (perm w) (in_features_of qm nbits s0)
                   (out_features_of qm nbits s1) nbits) = Inr (qweight w)"
    and "call_ext (permute_scales E sc) = Inr (scales w)"
    and "bits w = nbits"
    and "is_full_k w = (\<not> (da \<and> gs \<noteq> - 1 \<and> sh))"
    and "dtype (qweight w) = Int32 \<and> dtype (scales w) \<in> {Float16, BFloat16}
         \<and> dtype (g_idx w) = Int32 \<and> dtype (perm w) = Int32"
proof -
  from repack_gates_pass [OF assms(1)] assms(2,3)
  have c: "check_marlin_kernels E = None" and b: "nbits \<in> {4, 8}"
    and g: "gs \<in> {- 1, 32, 64, 128}"
    and a: "sy \<or> qm = ''awq'' \<or> qm = ''compressed-tensors''"
    and d: "in_features_of qm nbits s0 mod gs = 0"
    by auto
  have *: "\<exists>pm gi' repacked qz' scales'.
      (if gi \<noteq> None \<and> da \<and> gs \<noteq> - 1
       then pm = to_dtype (torch_argsort E (the gi)) Int32 \<and> index_tensor (the gi) pm = Inr gi'
       else pm = torch_empty_int \<and> gi' = torch_empty_int)
    \<and> (if qm = ''awq''
        then call_ext (awq_marlin_repack Q qw (in_features_of qm nbits s0) (out_features_of qm nbits s1) nbits) = Inr repacked
           \<and> (case qz of
                  Some z \<Rightarrow> awq_to_marlin_zero_points E z (in_features_of qm nbits s0 div gs)
                              (out_features_of qm nbits s1) nbits = Inr qz'
                | None \<Rightarrow> qz' = torch_empty_int)
        else call_ext (gptq_marlin_repack Q qw pm (in_features_of qm nbits s0) (out_features_of qm nbits s1) nbits) = Inr repacked
           \<and> qz' = (case qz of None \<Rightarrow> torch_empty_int | Some z \<Rightarrow> z))
    \<and> call_ext (permute_scales E sc) = Inr scales'
    \<and> new_GPTQMarlinWeight repacked qz' scales' gi' pm nbits (\<not> (da \<and> gs \<noteq> - 1 \<and> sh)) = Inr w"
  proof -
    have b': "nbits \<in> set GPTQ_MARLIN_BITS" and g': "gs \<in> set GPTQ_MARLIN_GROUP_SIZES"
      using b g by (simp_all add: gate_defs)
    show ?thesis
    proof (cases "qm = ''awq''")
      case True
      show ?thesis
        using assms(1) d
        by (cases qz; cases "gi \<noteq> None \<and> da \<and> gs \<noteq> - 1")
           (auto simp: repack_gptq_for_marlin_def c assms(2,3) b' g' True in_features_of_def
                      out_features_of_def Let_def and_then_Inr_iff)
    next
      case False
      show ?thesis
        using assms(1) d a
        by (cases qz; cases "gi \<noteq> None \<and> da \<and> gs \<noteq> - 1")
           (auto simp: repack_gptq_for_marlin_def c assms(2,3) b' g' False in_features_of_def
                      out_features_of_def Let_def and_then_Inr_iff)
    qed
  qed
  then obtain pm gi' repacked qz' scales' where
    p: "if gi \<noteq> None \<and> da \<and> gs \<noteq> - 1
       then pm = to_dtype (torch_argsort E (the gi)) Int32 \<and> index_tensor (the gi) pm = Inr gi'
       else pm = torch_empty_int \<and> gi' = torch_empty_int"
    and z: "if qm = ''awq''
        then call_ext (awq_marlin_repack Q qw (in_features_of qm nbits s0) (out_features_of qm nbits s1) nbits) = Inr repacked
           \<and> (case qz of
                  Some z \<Rightarrow> awq_to_marlin_zero_points E z (in_features_of qm nbits s0 div gs)
                              (out_features_of qm nbits s1) nbits = Inr qz'
                | None \<Rightarrow> qz' = torch_empty_int)
        else call_ext (gptq_marlin_repack Q qw pm (in_features_of qm nbits s0) (out_features_of qm nbits s1) nbits) = Inr repacked
           \<and> qz' = (case qz of None \<Rightarrow> torch_empty_int | Some z \<Rightarrow> z)"
    and s: "call_ext (permute_scales E sc) = Inr scales'"
    and n: "new_GPTQMarlinWeight repacked qz' scales' gi' pm nbits (\<not> (da \<and> gs \<noteq> - 1 \<and> sh)) = Inr w"
    by blast
  from n have w: "w = \<lparr>qweight = repacked, qzeros = qz', scales = scales', g_idx = gi', perm = pm,
                bits = nbits, is_full_k = (\<not> (da \<and> gs \<noteq> - 1 \<and> sh))\<rparr>"
    and dt: "dtype repacked = Int32 \<and> dtype scales' \<in> {Float16, BFloat16}
         \<and> dtype gi' = Int32 \<and> dtype pm = Int32"
    by (auto simp: new_GPTQMarlinWeight_def split: if_splits)
  show "(if gi \<noteq> None \<and> da \<and> gs \<noteq> - 1
          then perm w = to_dtype (torch_argsort E (the gi)) Int32
             \<and> index_tensor (the gi) (perm w) = Inr (g_idx w)
          else perm w = torch_empty_int \<and> g_idx w = torch_empty_int)"
    using p by (auto simp: w split: if_splits)
  show "(if qm = ''awq''
          then (case qz of
                  Some z \<Rightarrow> awq_to_marlin_zero_points E z (in_features_of qm nbits s0 div gs)
                              (out_features_of qm nbits s1) nbits = Inr (qzeros w)
                | None \<Rightarrow> qzeros w = torch_empty_int)
          else qzeros w = (case qz of None \<Rightarrow> torch_empty_int | Some z \<Rightarrow> z))"
    using z by (cases "qm = ''awq''") (auto simp: w split: option.splits)
  show "call_ext (if qm = ''awq''
            then awq_marlin_repack Q qw (in_features_of qm nbits s0) (out_features_of qm nbits s1) nbits
            else gptq_marlin_repack Q qw (perm w) (in_features_of qm nbits s0)
                   (out_features_of qm nbits s1) nbits) = Inr (qweight w)"
    using z by (cases "qm = ''awq''") (auto simp: w)
  show "call_ext (permute_scales E sc) = Inr (scales w)" using s by (simp add: w)
  show "bits w = nbits" by (simp add: w)
  show "is_full_k w = (\<not> (da \<and> gs \<noteq> - 1 \<and> sh))" by (simp add: w)
  show "dtype (qweight w) = Int32 \<and> dtype (scales w) \<in> {Float16, BFloat16}
         \<and> dtype (g_idx w) = Int32 \<and> dtype (perm w) = Int32"
    using dt by (simp add: w)
qed

subsection \<open>Where an exception can come from\<close>

lemma reshape_rows_Inl: "reshape_rows t c = Inl e \<Longrightarrow> \<exists>k s. e = Raise k (External s)"
  by (auto simp: reshape_rows_def split: if_splits)

lemma index_cols_Inl: "index_cols t idx = Inl e \<Longrightarrow> \<exists>k s. e = Raise k (External s)"
  by (auto simp: index_cols_def split: if_splits list.splits)

lemma index_tensor_Inl: "index_tensor t idx = Inl e \<Longrightarrow> \<exists>k s. e = Raise k (External s)"
  by (auto simp: index_tensor_def Let_def split: if_splits)

lemma awq_to_marlin_zero_points_Inl:
  assumes "awq_to_marlin_zero_points E z k n b = Inl e"
  shows "(\<exists>c s. e = Raise c (External s)) \<or> (e = Raise Exception (NumBitsMustBe4or8 b) \<and> b \<notin> {4, 8})"
  using assms
  unfolding awq_to_marlin_zero_points_def
  by (auto simp: and_then_Inl_iff split: if_splits
           dest: call_ext_Inl_External reshape_rows_Inl index_cols_Inl)

lemma new_GPTQMarlinWeight_Inl:
  "new_GPTQMarlinWeight qw qz sc gi pm b f = Inl e \<Longrightarrow> e = Raise AssertionError NoMessage"
  by (auto simp: new_GPTQMarlinWeight_def split: if_splits)

text \<open>Every exception of a call whose gates all pass comes from external code or from
  the constructor's assertions.\<close>

lemma repack_Inl_after_gates:
  assumes r: "repack_gptq_for_marlin E qw qz sc gi nbits da gs qm sy sh = Inl e"
    and c: "check_marlin_kernels E = None" and q: "quantization E = Some Q"
    and b: "nbits \<in> {4, 8}" and g: "gs \<in> {- 1, 32, 64, 128}"
    and a: "sy \<or> qm = ''awq'' \<or> qm = ''compressed-tensors''"
    and s: "shape qw = s0 # s1 # rest"
    and d: "in_features_of qm nbits s0 mod gs = 0"
  shows "(\<exists>k s. e = Raise k (External s)) \<or> e = Raise AssertionError NoMessage"
proof -
  have b': "nbits \<in> set GPTQ_MARLIN_BITS" and g': "gs \<in> set GPTQ_MARLIN_GROUP_SIZES"
    using b g by (simp_all add: gate_defs)
  have z: "\<And>z k n e'. awq_to_marlin_zero_points E z k n nbits = Inl e' \<Longrightarrow> \<exists>c s. e' = Raise c (External s)"
    using awq_to_marlin_zero_points_Inl b by blast
  show ?thesis
  proof (cases "qm = ''awq''")
    case True
    show ?thesis
      using r d
      by (cases qz; cases "gi \<noteq> None \<and> da \<and> gs \<noteq> - 1")
         (auto simp: repack_gptq_for_marlin_def c q s b' g' True in_features_of_def
                    out_features_of_def Let_def and_then_Inl_iff
               dest: call_ext_Inl_External index_tensor_Inl new_GPTQMarlinWeight_Inl z)
  next
    case False
    show ?thesis
      using r d a
      by (cases qz; cases "gi \<noteq> None \<and> da \<and> gs \<noteq> - 1")
         (auto simp: repack_gptq_for_marlin_def c q s b' g' False in_features_of_def
                    out_features_of_def Let_def and_then_Inl_iff
               dest: call_ext_Inl_External index_tensor_Inl new_GPTQMarlinWeight_Inl)
  qed
qed

lemma repack_Inl_cases:
  assumes r: "repack_gptq_for_marlin E qw qz sc gi nbits da gs qm sy sh = Inl e"
  shows "(\<exists>k s. e = Raise k (External s))
       \<or> e = Raise AssertionError NoMessage
       \<or> (e = Raise RuntimeError (UnsupportedBits nbits) \<and> nbits \<notin> {4, 8})
       \<or> (e = Raise RuntimeError (UnsupportedGroupSize gs) \<and> gs \<notin> {- 1, 32, 64, 128})
       \<or> (e = Raise RuntimeError AsymmetricUnsupported
            \<and> \<not> (sy \<or> qm = ''awq'' \<or> qm = ''compressed-tensors''))
       \<or> (\<exists>s0 s1 rest. shape qw = s0 # s1 # rest
            \<and> e = Raise ValueError (NotDivisible (in_features_of qm nbits s0) gs)
            \<and> in_features_of qm nbits s0 mod gs \<noteq> 0)"
proof (cases "check_marlin_kernels E")
  case (Some x)
  obtain k s where "x = (k, s)" by (cases x)
  with repack_kernels_unavailable [OF Some, of qw qz sc gi nbits da gs qm sy sh] r
  show ?thesis by simp
next
  case c: None
  show ?thesis
  proof (cases "quantization E")
    case None
    with repack_no_quantization [OF c None, of qw qz sc gi nbits da gs qm sy sh] r
    show ?thesis by simp
  next
    case q: (Some Q)
    show ?thesis
    proof (cases "nbits \<in> {4, 8}")
      case False
      with repack_bad_bits [OF c q False, of qw qz sc gi da gs qm sy sh] r
      show ?thesis by simp
    next
      case b: True
      show ?thesis
      proof (cases "gs \<in> {- 1, 32, 64, 128}")
        case False
        with repack_bad_groupsize [OF c q b False, of qw qz sc gi da qm sy sh] r
        show ?thesis by simp
      next
        case g: True
        show ?thesis
        proof (cases "sy \<or> qm = ''awq'' \<or> qm = ''compressed-tensors''")
          case False
          with repack_asymmetric [OF c q b g False, of qw qz sc gi da sh] r
          show ?thesis by simp
        next
          case a: True
          show ?thesis
          proof (cases "length (shape qw) < 2")
            case True
            with repack_bad_shape [OF c q b g a True, of qz sc gi da sh] r
            show ?thesis by simp
          next
            case False
            then obtain s0 s1 rest where s: "shape qw = s0 # s1 # rest"
              by (cases "shape qw"; cases "tl (shape qw)") auto
            show ?thesis
            proof (cases "in_features_of qm nbits s0 mod gs = 0")
              case False
              with repack_not_divisible [OF c q b g a s False, of qz sc gi da sh] r s
              show ?thesis by simp
            next
              case True
              from repack_Inl_after_gates [OF r c q b g a s True]
              show ?thesis by blast
            qed
          qed
        qed
      qed
    qed
  qed
qed

subsection \<open>\<^verbatim>\<open>argsort\<close> and the channel permutation\<close>

lemma argsort_length: "length (argsort xs) = length xs"
  by (simp add: argsort_def)

lemma argsort_set: "set (argsort xs) = {0..<length xs}"
  by (simp add: argsort_def)

lemma argsort_distinct: "distinct (argsort xs)"
  by (simp add: argsort_def)

lemma argsort_sorted: "sorted (map (\<lambda>i. xs ! i) (argsort xs))"
  by (simp add: argsort_def sorted_sort_key)

text \<open>Both tie orders are sorting permutations.\<close>

lemma argsort_sorts_ascending: "sorts_ascending xs (argsort xs)"
  by (simp add: sorts_ascending_def argsort_length argsort_set argsort_distinct argsort_sorted)

lemma argsort_reverse_ties_sorts_ascending: "sorts_ascending xs (argsort_reverse_ties xs)"
  by (simp add: sorts_ascending_def argsort_reverse_ties_def sorted_sort_key)

text \<open>Indexing by the indices of \<^verbatim>\<open>torch.argsort\<close>, which are not negative.\<close>

lemma index_tensor_nat_indices:
  assumes "index_tensor g \<lparr>dtype = d, shape = sh, data = map int p\<rparr> = Inr gi'"
  shows "gi' = \<lparr>dtype = dtype g, shape = sh, data = map (\<lambda>i. data g ! i) p\<rparr>"
  using assms by (auto simp: index_tensor_def Let_def o_def split: if_splits)

lemma index_tensor_in_range:
  assumes "\<forall>i \<in> set p. i < length (data g)"
  shows "index_tensor g \<lparr>dtype = d, shape = sh, data = map int p\<rparr>
       = Inr \<lparr>dtype = dtype g, shape = sh, data = map (\<lambda>i. data g ! i) p\<rparr>"
  using assms by (auto simp: index_tensor_def Let_def o_def)

lemma replicate_32:
  "replicate 32 x =
     [x, x, x, x, x, x, x, x, x, x, x, x, x, x, x, x,
      x, x, x, x, x, x, x, x, x, x, x, x, x, x, x, x]"
  by (simp add: eval_nat_numeral)

lemma sample_argsort:
  "argsort sample_g_idx_data =
     [1, 3, 5, 7, 9, 11, 13, 15, 17, 19, 21, 23, 25, 27, 29, 31,
      33, 35, 37, 39, 41, 43, 45, 47, 49, 51, 53, 55, 57, 59, 61, 63,
      0, 2, 4, 6, 8, 10, 12, 14, 16, 18, 20, 22, 24, 26, 28, 30,
      32, 34, 36, 38, 40, 42, 44, 46, 48, 50, 52, 54, 56, 58, 60, 62]"
  by (simp add: sample_g_idx_data_def argsort_def)

lemma sample_argsort_reverse_ties:
  "argsort_reverse_ties sample_g_idx_data =
     [63, 61, 59, 57, 55, 53, 51, 49, 47, 45, 43, 41, 39, 37, 35, 33,
      31, 29, 27, 25, 23, 21, 19, 17, 15, 13, 11, 9, 7, 5, 3, 1,
      62, 60, 58, 56, 54, 52, 50, 48, 46, 44, 42, 40, 38, 36, 34, 32,
      30, 28, 26, 24, 22, 20, 18, 16, 14, 12, 10, 8, 6, 4, 2, 0]"
  by (simp add: sample_g_idx_data_def argsort_reverse_ties_def)

text \<open>The call on the sample weight of eight rows, for any sorting permutation.\<close>

lemma sample_repack_perm:
  assumes "torch_argsort_indices E = f" "sorts_ascending sample_g_idx_data (f sample_g_idx_data)"
    and "check_marlin_kernels E = None" "quantization E = Some sample_kernels"
    and "permute_scales E = (\<lambda>s. Inr s)"
  shows "repack_gptq_for_marlin E sample_qweight_rows8 None sample_scales_2x1
           (Some sample_g_idx) 4 True 32 ''gptq'' True False =
         Inr \<lparr>qweight = sample_qweight_rows8, qzeros = torch_empty_int,
              scales = sample_scales_2x1,
              g_idx = \<lparr>dtype = Int32, shape = [64],
                       data = map (\<lambda>i. sample_g_idx_data ! i) (f sample_g_idx_data)\<rparr>,
              perm = \<lparr>dtype = Int32, shape = [64], data = map int (f sample_g_idx_data)\<rparr>,
              bits = 4, is_full_k = True\<rparr>"
proof -
  have l: "length sample_g_idx_data = 64" by (simp add: sample_g_idx_data_def)
  have "\<forall>i \<in> set (f sample_g_idx_data). i < length (data sample_g_idx)"
    using assms(2) by (simp add: sorts_ascending_def sample_g_idx_def)
  from index_tensor_in_range [OF this, of Int32 "[64]"]
  have ix: "index_tensor sample_g_idx
        \<lparr>dtype = Int32, shape = [64], data = map int (f sample_g_idx_data)\<rparr> =
     Inr \<lparr>dtype = Int32, shape = [64],
          data = map (\<lambda>i. sample_g_idx_data ! i) (f sample_g_idx_data)\<rparr>"
    by (simp add: sample_g_idx_def)
  have ta: "(torch_argsort E sample_g_idx)\<lparr>dtype := Int32\<rparr> =
        \<lparr>dtype = Int32, shape = [64], data = map int (f sample_g_idx_data)\<rparr>"
    by (simp add: torch_argsort_def assms(1) sample_g_idx_def l)
  show ?thesis
    by (simp add: repack_gptq_for_marlin_def assms(3,4,5) ta ix Let_def sample_kernels_def
          sample_qweight_rows8_def sample_scales_2x1_def gate_defs new_GPTQMarlinWeight_def
          to_dtype_def torch_empty_int_def)
qed

lemma sample_gather_stable:
  "map (\<lambda>i. sample_g_idx_data ! i) (argsort sample_g_idx_data) = replicate 32 0 @ replicate 32 1"
  unfolding sample_argsort by (simp add: sample_g_idx_data_def replicate_32)

lemma sample_gather_reverse_ties:
  "map (\<lambda>i. sample_g_idx_data ! i) (argsort_reverse_ties sample_g_idx_data)
     = replicate 32 0 @ replicate 32 1"
  unfolding sample_argsort_reverse_ties by (simp add: sample_g_idx_data_def replicate_32)

text \<open>The zero-point primitives play no part on the row-packed path.\<close>

lemma repack_row_packed_ignores_zero_point_primitives:
  assumes "quant_method \<noteq> ''awq''"
  shows "repack_gptq_for_marlin (E\<lparr>unpack_cols := u, marlin_zero_points := m\<rparr>) qw qz sc gi
     nbits desc_act groupsize quant_method symmetric sharded_infeatures
   = repack_gptq_for_marlin E qw qz sc gi nbits desc_act groupsize quant_method symmetric
       sharded_infeatures"
proof -
  from assms have f: "(quant_method = ''awq'') = False" by simp
  let ?E = "E\<lparr>unpack_cols := u, marlin_zero_points := m\<rparr>"
  have e: "check_marlin_kernels ?E = check_marlin_kernels E"
    "quantization ?E = quantization E" "permute_scales ?E = permute_scales E"
    "torch_argsort_indices ?E = torch_argsort_indices E"
    by simp_all
  show ?thesis
    by (simp only: repack_gptq_for_marlin_def torch_argsort_def f if_False e)
qed

subsection \<open>The undo-interleave step\<close>

lemma map_upt_block:
  assumes "length idx = L"
  shows "map (\<lambda>i. f (i div L * L + idx ! (i mod L))) [r * L..<r * L + L]
       = map (\<lambda>j. f (r * L + j)) idx"
proof (rule nth_equalityI)
  show "length (map (\<lambda>i. f (i div L * L + idx ! (i mod L))) [r * L..<r * L + L])
      = length (map (\<lambda>j. f (r * L + j)) idx)"
    using assms by simp
next
  fix k
  assume "k < length (map (\<lambda>i. f (i div L * L + idx ! (i mod L))) [r * L..<r * L + L])"
  then have k: "k < L" by simp
  then have "(r * L + k) div L = r" and "(r * L + k) mod L = k" by simp_all
  with k assms
  show "map (\<lambda>i. f (i div L * L + idx ! (i mod L))) [r * L..<r * L + L] ! k
      = map (\<lambda>j. f (r * L + j)) idx ! k"
    by simp
qed

lemma concat_map_blocks:
  assumes "length idx = L"
  shows "concat (map (\<lambda>b. map (\<lambda>j. f (b * L + j)) idx) [0..<r])
       = map (\<lambda>i. f (i div L * L + idx ! (i mod L))) [0..<r * L]"
proof (induction r)
  case 0
  then show ?case by simp
next
  case (Suc r)
  have "[0..<Suc r * L] = [0..<r * L] @ [r * L..<r * L + L]"
    using upt_add_eq_append [of 0 "r * L" L] by (simp add: add.commute)
  with Suc map_upt_block [OF assms, of f r] show ?case by simp
qed

lemma argsort_interleave_4: "argsort [0, 2, 4, 6, 1, 3, 5, 7] = [0, 4, 1, 5, 2, 6, 3, 7]"
  by (simp add: argsort_def)

lemma argsort_interleave_8: "argsort [0, 2, 1, 3] = [0, 2, 1, 3]"
  by (simp add: argsort_def)

lemma undo_interleave_step:
  assumes L: "length idx = L" "0 < L" "\<forall>j \<in> set idx. j < L"
    and d: "length (data q) mod L = 0" and n: "0 < n" "int (length (data q)) mod n = 0"
  shows "and_then (reshape_rows q (int (length idx))) (\<lambda>rows.
         and_then (index_cols rows idx) (\<lambda>cols.
         and_then (reshape_rows (ravel cols) n) F))
       = F \<lparr>dtype = dtype q, shape = [length (data q) div nat n, nat n],
            data = map (\<lambda>i. data q ! (i div L * L + idx ! (i mod L))) [0..<length (data q)]\<rparr>"
proof -
  have r: "reshape_rows q (int (length idx)) = Inr (q\<lparr>shape := [length (data q) div L, L]\<rparr>)"
    using L d by (simp add: reshape_rows_def numel_def flip: zmod_int)
  have len: "length (data q) div L * L = length (data q)"
    using d by (simp add: mod_0_imp_dvd)
  have c: "index_cols (q\<lparr>shape := [length (data q) div L, L]\<rparr>) idx
     = Inr (q\<lparr>shape := [length (data q) div L, L],
             data := map (\<lambda>i. data q ! (i div L * L + idx ! (i mod L))) [0..<length (data q)]\<rparr>)"
    using L concat_map_blocks [OF L(1), of "\<lambda>i. data q ! i" "length (data q) div L"]
    by (simp add: index_cols_def len)
  have r2: "reshape_rows
       (ravel (q\<lparr>shape := [length (data q) div L, L],
             data := map (\<lambda>i. data q ! (i div L * L + idx ! (i mod L))) [0..<length (data q)]\<rparr>))
       n
     = Inr \<lparr>dtype = dtype q, shape = [length (data q) div nat n, nat n],
            data = map (\<lambda>i. data q ! (i div L * L + idx ! (i mod L))) [0..<length (data q)]\<rparr>"
    using n by (cases q) (simp add: ravel_def numel_def reshape_rows_def)
  show ?thesis
    by (simp only: r c r2 and_then.simps)
qed

lemma upt_0_8: "[0..<8] = [0, 1, 2, 3, 4, 5, 6, 7]"
  and upt_0_4: "[0..<4] = [0, 1, 2, 3]"
  and upt_0_16: "[0..<16] = [0, 1, 2, 3, 4, 5, 6, 7, 8, 9, 10, 11, 12, 13, 14, 15]"
  by (simp_all add: upt_rec)

subsection \<open>The loader: which lookup fails, and what is raised\<close>

lemma comprehension_fails:
  "x \<in> set xs \<Longrightarrow> f x = Inl e0 \<Longrightarrow> \<exists>y \<in> set xs. \<exists>e. f y = Inl e \<and> comprehension f xs = Inl e"
proof (induction xs)
  case Nil
  then show ?case by simp
next
  case (Cons a xs)
  show ?case
  proof (cases "f a")
    case (Inl e)
    then show ?thesis by auto
  next
    case (Inr v)
    with Cons.prems have "x \<in> set xs" by auto
    from Cons.IH [OF this Cons.prems(2)] obtain y e where
      "y \<in> set xs" "f y = Inl e" "comprehension f xs = Inl e" by blast
    with Inr show ?thesis by auto
  qed
qed

lemma cat_sharded_missing:
  assumes "p \<in> set prefixes" "get_sharded W (p @ name) 1 = Inl x"
  shows "\<exists>p' \<in> set prefixes. \<exists>x'. get_sharded W (p' @ name) 1 = Inl x'
           \<and> cat_sharded E W prefixes name = Inl (ext_raise x')"
proof -
  from assms(2) have "call_ext (get_sharded W (p @ name) 1) = Inl (ext_raise x)" by simp
  from comprehension_fails [OF assms(1), of "\<lambda>p. call_ext (get_sharded W (p @ name) 1)", OF this]
  obtain y e where y: "y \<in> set prefixes" "call_ext (get_sharded W (y @ name) 1) = Inl e"
    "comprehension (\<lambda>p. call_ext (get_sharded W (p @ name) 1)) prefixes = Inl e" by blast
  from y(2) obtain x' where x': "get_sharded W (y @ name) 1 = Inl x'" "e = ext_raise x'"
    by (cases "get_sharded W (y @ name) 1") auto
  have "cat_sharded E W prefixes name = Inl (ext_raise x')"
    using y(3) x'(2) by (simp add: cat_sharded_def)
  with y(1) x'(1) show ?thesis by blast
qed

lemma get_weights_missing:
  "(get_tensor W (pfx @ ''.qweight'') = Inl (c, m) \<and> is_RuntimeError c \<longrightarrow>
      get_weights E self W pfx = Inl (Raise RuntimeError (CannotLoadForRepacking (self_quantize self))))
   \<and> (get_tensor W (pfx @ ''.qweight'') = Inr t \<longrightarrow>
        (\<not> self_sym self \<and> get_tensor W (pfx @ ''.qzeros'') = Inl x \<longrightarrow>
           get_weights E self W pfx = Inl (ext_raise x))
      \<and> ((self_sym self \<or> (\<exists>z. get_tensor W (pfx @ ''.qzeros'') = Inr z))
          \<and> self_quant_method self \<noteq> ''awq'' \<and> get_tensor W (pfx @ ''.g_idx'') = Inl x \<longrightarrow>
           get_weights E self W pfx = Inl (ext_raise x))
      \<and> ((self_sym self \<or> (\<exists>z. get_tensor W (pfx @ ''.qzeros'') = Inr z))
          \<and> (self_quant_method self = ''awq'' \<or> (\<exists>g. get_tensor W (pfx @ ''.g_idx'') = Inr g))
          \<and> get_tensor W (pfx @ ''.scales'') = Inl x \<longrightarrow>
           get_weights E self W pfx = Inl (ext_raise x)))"
  by (auto simp: get_weights_def)

lemma get_weights_col_packed_missing:
  "(get_packed_sharded W (pfx @ ''.qweight'') 1 bs = Inl (c, m) \<and> is_RuntimeError c \<longrightarrow>
      get_weights_col_packed E self W pfx bs = Inl (Raise RuntimeError (CannotLoad (self_quantize self))))
   \<and> (get_packed_sharded W (pfx @ ''.qweight'') 1 bs = Inr t \<longrightarrow>
        (get_packed_sharded W (pfx @ ''.scales'') 1 bs = Inl x \<longrightarrow>
           get_weights_col_packed E self W pfx bs = Inl (ext_raise x))
      \<and> ((\<exists>s. get_packed_sharded W (pfx @ ''.scales'') 1 bs = Inr s)
          \<and> \<not> self_sym self \<and> get_packed_sharded W (pfx @ ''.qzeros'') 1 bs = Inl x \<longrightarrow>
           get_weights_col_packed E self W pfx bs = Inl (ext_raise x))
      \<and> ((\<exists>s. get_packed_sharded W (pfx @ ''.scales'') 1 bs = Inr s)
          \<and> (self_sym self \<or> (\<exists>z. get_packed_sharded W (pfx @ ''.qzeros'') 1 bs = Inr z))
          \<and> self_quant_method self \<noteq> ''awq'' \<and> get_tensor W (pfx @ ''.g_idx'') = Inl x \<longrightarrow>
           get_weights_col_packed E self W pfx bs = Inl (ext_raise x)))"
  by (auto simp: get_weights_col_packed_def Let_def)

lemma get_weights_row_missing:
  "(get_sharded W (pfx @ ''.qweight'') 0 = Inl (c, m) \<and> is_RuntimeError c \<longrightarrow>
      get_weights_row E self W pfx = Inl (Raise RuntimeError (CannotLoadForRepacking (self_quantize self))))
   \<and> (get_sharded W (pfx @ ''.qweight'') 0 = Inr t \<longrightarrow>
        (\<not> self_sym self
          \<and> (if self_desc_act self \<or> self_groupsize self = - 1
               then get_tensor W (pfx @ ''.qzeros'')
               else get_sharded W (pfx @ ''.qzeros'') 0) = Inl x \<longrightarrow>
           get_weights_row E self W pfx = Inl (ext_raise x))
      \<and> ((self_sym self
            \<or> (\<exists>z. (if self_desc_act self \<or> self_groupsize self = - 1
                      then get_tensor W (pfx @ ''.qzeros'')
                      else get_sharded W (pfx @ ''.qzeros'') 0) = Inr z))
          \<and> self_quant_method self \<noteq> ''awq'' \<and> get_sharded W (pfx @ ''.g_idx'') 0 = Inl x \<longrightarrow>
           get_weights_row E self W pfx = Inl (ext_raise x))
      \<and> ((self_sym self
            \<or> (\<exists>z. (if self_desc_act self \<or> self_groupsize self = - 1
                      then get_tensor W (pfx @ ''.qzeros'')
                      else get_sharded W (pfx @ ''.qzeros'') 0) = Inr z))
          \<and> (self_quant_method self = ''awq'' \<or> (\<exists>g. get_sharded W (pfx @ ''.g_idx'') 0 = Inr g))
          \<and> (if self_desc_act self \<or> self_groupsize self = - 1
               then get_tensor W (pfx @ ''.scales'')
               else get_sharded W (pfx @ ''.scales'') 0) = Inl x \<longrightarrow>
           get_weights_row E self W pfx = Inl (ext_raise x)))"
  by (auto simp: get_weights_row_def Let_def split: if_splits)

lemma get_multi_weights_col_missing:
  "((\<exists>p \<in> set prefixes. \<exists>x. get_sharded W (p @ ''.qweight'') 1 = Inl x)
      \<and> (\<forall>p \<in> set prefixes. \<forall>c m. get_sharded W (p @ ''.qweight'') 1 = Inl (c, m)
             \<longrightarrow> is_RuntimeError c) \<longrightarrow>
      get_multi_weights_col E self W prefixes dim
        = Inl (Raise RuntimeError (CannotLoad (self_quantize self))))
   \<and> (cat_sharded E W prefixes ''.qweight'' = Inr t \<longrightarrow>
        ((\<exists>p \<in> set prefixes. \<exists>x. get_sharded W (p @ ''.scales'') 1 = Inl x) \<longrightarrow>
           (\<exists>p \<in> set prefixes. \<exists>x. get_sharded W (p @ ''.scales'') 1 = Inl x
              \<and> get_multi_weights_col E self W prefixes dim = Inl (ext_raise x)))
      \<and> ((\<exists>s. cat_sharded E W prefixes ''.scales'' = Inr s) \<and> \<not> self_sym self
          \<and> (\<exists>p \<in> set prefixes. \<exists>x. get_sharded W (p @ ''.qzeros'') 1 = Inl x) \<longrightarrow>
           (\<exists>p \<in> set prefixes. \<exists>x. get_sharded W (p @ ''.qzeros'') 1 = Inl x
              \<and> get_multi_weights_col E self W prefixes dim = Inl (ext_raise x)))
      \<and> ((\<exists>s. cat_sharded E W prefixes ''.scales'' = Inr s)
          \<and> (self_sym self \<or> (\<exists>z. cat_sharded E W prefixes ''.qzeros'' = Inr z))
          \<and> self_quant_method self \<noteq> ''awq''
          \<and> (\<exists>p \<in> set prefixes. \<exists>x. get_tensor W (p @ ''.g_idx'') = Inl x) \<longrightarrow>
           (\<exists>p \<in> set prefixes. \<exists>x. get_tensor W (p @ ''.g_idx'') = Inl x
              \<and> get_multi_weights_col E self W prefixes dim = Inl (ext_raise x))))"
proof (intro conjI impI)
  assume h: "(\<exists>p \<in> set prefixes. \<exists>x. get_sharded W (p @ ''.qweight'') 1 = Inl x)
      \<and> (\<forall>p \<in> set prefixes. \<forall>c m. get_sharded W (p @ ''.qweight'') 1 = Inl (c, m)
             \<longrightarrow> is_RuntimeError c)"
  then obtain p x where "p \<in> set prefixes" "get_sharded W (p @ ''.qweight'') 1 = Inl x" by blast
  from cat_sharded_missing [OF this, of E] obtain p' x' where
    p': "p' \<in> set prefixes" "get_sharded W (p' @ ''.qweight'') 1 = Inl x'"
      "cat_sharded E W prefixes ''.qweight'' = Inl (ext_raise x')" by blast
  obtain c m where x': "x' = (c, m)" by (cases x')
  with h p' have "is_RuntimeError c" by blast
  with p'(3) x'
  show "get_multi_weights_col E self W prefixes dim
        = Inl (Raise RuntimeError (CannotLoad (self_quantize self)))"
    by (simp add: get_multi_weights_col_def)
next
  assume q: "cat_sharded E W prefixes ''.qweight'' = Inr t"
    and "\<exists>p \<in> set prefixes. \<exists>x. get_sharded W (p @ ''.scales'') 1 = Inl x"
  then obtain p x where "p \<in> set prefixes" "get_sharded W (p @ ''.scales'') 1 = Inl x" by blast
  from cat_sharded_missing [OF this, of E] obtain p' x' where
    p': "p' \<in> set prefixes" "get_sharded W (p' @ ''.scales'') 1 = Inl x'"
      "cat_sharded E W prefixes ''.scales'' = Inl (ext_raise x')" by blast
  have "get_multi_weights_col E self W prefixes dim = Inl (ext_raise x')"
    using q p'(3) by (simp add: get_multi_weights_col_def)
  with p' show "\<exists>p \<in> set prefixes. \<exists>x. get_sharded W (p @ ''.scales'') 1 = Inl x
              \<and> get_multi_weights_col E self W prefixes dim = Inl (ext_raise x)" by blast
next
  assume q: "cat_sharded E W prefixes ''.qweight'' = Inr t"
    and h: "(\<exists>s. cat_sharded E W prefixes ''.scales'' = Inr s) \<and> \<not> self_sym self
          \<and> (\<exists>p \<in> set prefixes. \<exists>x. get_sharded W (p @ ''.qzeros'') 1 = Inl x)"
  then obtain s p x where s: "cat_sharded E W prefixes ''.scales'' = Inr s"
    and n: "\<not> self_sym self"
    and "p \<in> set prefixes" "get_sharded W (p @ ''.qzeros'') 1 = Inl x" by blast
  from cat_sharded_missing [OF this(3,4), of E] obtain p' x' where
    p': "p' \<in> set prefixes" "get_sharded W (p' @ ''.qzeros'') 1 = Inl x'"
      "cat_sharded E W prefixes ''.qzeros'' = Inl (ext_raise x')" by blast
  have "get_multi_weights_col E self W prefixes dim = Inl (ext_raise x')"
    using q s n p'(3) by (simp add: get_multi_weights_col_def)
  with p' show "\<exists>p \<in> set prefixes. \<exists>x. get_sharded W (p @ ''.qzeros'') 1 = Inl x
              \<and> get_multi_weights_col E self W prefixes dim = Inl (ext_raise x)" by blast
next
  assume q: "cat_sharded E W prefixes ''.qweight'' = Inr t"
    and h: "(\<exists>s. cat_sharded E W prefixes ''.scales'' = Inr s)
          \<and> (self_sym self \<or> (\<exists>z. cat_sharded E W prefixes ''.qzeros'' = Inr z))
          \<and> self_quant_method self \<noteq> ''awq''
          \<and> (\<exists>p \<in> set prefixes. \<exists>x. get_tensor W (p @ ''.g_idx'') = Inl x)"
  then obtain s p x where s: "cat_sharded E W prefixes ''.scales'' = Inr s"
    and z: "self_sym self \<or> (\<exists>z. cat_sharded E W prefixes ''.qzeros'' = Inr z)"
    and a: "self_quant_method self \<noteq> ''awq''"
    and p: "p \<in> set prefixes" "get_tensor W (p @ ''.g_idx'') = Inl x" by blast
  from p(2) have "call_ext (get_tensor W (p @ ''.g_idx'')) = Inl (ext_raise x)" by simp
  from comprehension_fails [OF p(1), of "\<lambda>p. call_ext (get_tensor W (p @ ''.g_idx''))", OF this]
  obtain y e where y: "y \<in> set prefixes" "call_ext (get_tensor W (y @ ''.g_idx'')) = Inl e"
    "comprehension (\<lambda>p. call_ext (get_tensor W (p @ ''.g_idx''))) prefixes = Inl e" by blast
  from y(2) obtain x' where x': "get_tensor W (y @ ''.g_idx'') = Inl x'" "e = ext_raise x'"
    by (cases "get_tensor W (y @ ''.g_idx'')") auto
  have "get_multi_weights_col E self W prefixes dim = Inl (ext_raise x')"
    using q s z a y(3) x'(2) by (auto simp: get_multi_weights_col_def)
  with y(1) x'(1) show "\<exists>p \<in> set prefixes. \<exists>x. get_tensor W (p @ ''.g_idx'') = Inl x
              \<and> get_multi_weights_col E self W prefixes dim = Inl (ext_raise x)" by blast
qed

lemmas loader_defs = storage_weights_def storage_lookup_def sample_loader_def

section \<open>The claims\<close>

lemmas sample_defs = sample_env_def sample_kernels_def sample_qweight_def sample_scales_def
  sample_qzeros_def sample_qweight_rows4_def sample_qweight_4x8_def sample_scales_1x8_def
  sample_qzeros_lane1_def sample_qweight_rows8_def sample_scales_2x1_def sample_g_idx_def
  sample_unpack_cols_def
  sample_marlin_zero_points_def sample_torch_cat_def
  torch_empty_int_def to_dtype_def new_GPTQMarlinWeight_def gate_defs

text \<open>
  C8. The shape validator \<^verbatim>\<open>_check_valid_shape\<close> raises for \<open>(in_features, out_features)\<close>
  if and only if neither \<open>in_features mod 128 = 0 \<and> out_features mod 64 = 0\<close> nor
  \<open>in_features mod 64 = 0 \<and> out_features mod 128 = 0\<close> holds; what it raises is the
  \<open>ValueError\<close> naming the shape. Every shape divisible by (128, 64) or by (64, 128) passes,
  and the shape (127, 64) fails.
\<close>

theorem check_valid_shape_raises_iff:
  "((\<exists>e. check_valid_shape k n = Inl e) \<longleftrightarrow>
      \<not> ((k mod 128 = 0 \<and> n mod 64 = 0) \<or> (k mod 64 = 0 \<and> n mod 128 = 0)))
   \<and> (check_valid_shape k n = Inr () \<longleftrightarrow>
      (k mod 128 = 0 \<and> n mod 64 = 0) \<or> (k mod 64 = 0 \<and> n mod 128 = 0))
   \<and> (check_valid_shape k n = Inr () \<or>
      check_valid_shape k n = Inl (Raise ValueError (NoValidThreadConfig n k)))
   \<and> check_valid_shape (128 * a) (64 * b) = Inr ()
   \<and> check_valid_shape (64 * a) (128 * b) = Inr ()
   \<and> check_valid_shape 127 64 = Inl (Raise ValueError (NoValidThreadConfig 64 127))"
  by (simp add: check_valid_shape_def)

theorem check_valid_shape_witness:
  "check_valid_shape 256 64 = Inr () \<and> check_valid_shape 64 128 = Inr ()
   \<and> (\<exists>e. check_valid_shape 64 64 = Inl e)"
  using check_valid_shape_raises_iff [of 256 64] check_valid_shape_raises_iff [of 64 128]
    check_valid_shape_raises_iff [of 64 64]
  by simp

text \<open>
  C5. Every successful call of \<^verbatim>\<open>repack_gptq_for_marlin\<close> returns
  \<open>is_full_k = \<not> (desc_act \<and> groupsize \<noteq> -1 \<and> sharded_infeatures)\<close>: the flag is false
  exactly when activation-order grouping is active, the group size is not the whole-row
  sentinel and the shard holds a partition of the input features.
\<close>

theorem repack_is_full_k:
  assumes "repack_gptq_for_marlin E qw qz sc gi nbits desc_act groupsize quant_method symmetric
             sharded_infeatures = Inr w"
  shows "is_full_k w = (\<not> (desc_act \<and> groupsize \<noteq> - 1 \<and> sharded_infeatures))
       \<and> (is_full_k w = False \<longleftrightarrow> desc_act \<and> groupsize \<noteq> - 1 \<and> sharded_infeatures)"
proof -
  from repack_gates_pass [OF assms] obtain Q s0 s1 rest where
    "quantization E = Some Q" and "shape qw = s0 # s1 # rest" by blast
  from repack_Inr_D(6) [OF assms this] show ?thesis by simp
qed

theorem repack_is_full_k_witness:
  "map_sum id is_full_k
     (repack_gptq_for_marlin sample_env sample_qweight_rows4 None sample_scales None 4 True 32
        ''gptq'' True True) = Inr False
   \<and> map_sum id is_full_k
     (repack_gptq_for_marlin sample_env sample_qweight None sample_scales None 4 False (- 1)
        ''gptq'' True False) = Inr True"
proof -
  obtain w where r: "repack_gptq_for_marlin sample_env sample_qweight_rows4 None sample_scales
      None 4 True 32 ''gptq'' True True = Inr w"
    by (simp add: repack_gptq_for_marlin_def sample_defs)
  obtain w' where r': "repack_gptq_for_marlin sample_env sample_qweight None sample_scales
      None 4 False (- 1) ''gptq'' True False = Inr w'"
    by (simp add: repack_gptq_for_marlin_def sample_defs)
  from repack_is_full_k [OF r] repack_is_full_k [OF r'] r r' show ?thesis by simp
qed

text \<open>
  C6, as amended. \<^verbatim>\<open>repack_gptq_for_marlin\<close> fails for every \<open>bits\<close> outside \<open>{4, 8}\<close>
  and for every \<open>groupsize\<close> outside \<open>{-1, 32, 64, 128}\<close>. When the kernel checks at the
  top of the function pass (\<^verbatim>\<open>_check_marlin_kernels()\<close> returns and \<^verbatim>\<open>quantization\<close> is
  not \<^verbatim>\<open>None\<close>), the exception is the \<open>RuntimeError\<close> naming the bit width for every
  unsupported \<open>bits\<close>, and the \<open>RuntimeError\<close> naming the group size for every
  unsupported \<open>groupsize\<close> with a supported \<open>bits\<close>: the bit width is checked first.
  For every pair drawn from the two sets neither of these exceptions is raised.
\<close>

theorem repack_rejects_unsupported_bits_and_groupsize:
  "(nbits \<notin> {4, 8} \<or> groupsize \<notin> {- 1, 32, 64, 128} \<longrightarrow>
      (\<exists>e. repack_gptq_for_marlin E qw qz sc gi nbits desc_act groupsize quant_method symmetric
             sharded_infeatures = Inl e))
   \<and> (check_marlin_kernels E = None \<and> quantization E \<noteq> None \<longrightarrow>
        (nbits \<notin> {4, 8} \<longrightarrow>
           repack_gptq_for_marlin E qw qz sc gi nbits desc_act groupsize quant_method symmetric
             sharded_infeatures = Inl (Raise RuntimeError (UnsupportedBits nbits)))
      \<and> (nbits \<in> {4, 8} \<and> groupsize \<notin> {- 1, 32, 64, 128} \<longrightarrow>
           repack_gptq_for_marlin E qw qz sc gi nbits desc_act groupsize quant_method symmetric
             sharded_infeatures = Inl (Raise RuntimeError (UnsupportedGroupSize groupsize))))
   \<and> (nbits \<in> {4, 8} \<and> groupsize \<in> {- 1, 32, 64, 128} \<longrightarrow>
        (\<forall>c b. repack_gptq_for_marlin E qw qz sc gi nbits desc_act groupsize quant_method symmetric
             sharded_infeatures \<noteq> Inl (Raise c (UnsupportedBits b)))
      \<and> (\<forall>c g. repack_gptq_for_marlin E qw qz sc gi nbits desc_act groupsize quant_method symmetric
             sharded_infeatures \<noteq> Inl (Raise c (UnsupportedGroupSize g))))"
proof (intro conjI impI allI)
  assume bad: "nbits \<notin> {4, 8} \<or> groupsize \<notin> {- 1, 32, 64, 128}"
  show "\<exists>e. repack_gptq_for_marlin E qw qz sc gi nbits desc_act groupsize quant_method symmetric
             sharded_infeatures = Inl e"
  proof (cases "repack_gptq_for_marlin E qw qz sc gi nbits desc_act groupsize quant_method
                  symmetric sharded_infeatures")
    case (Inl e)
    then show ?thesis by blast
  next
    case (Inr w)
    from repack_gates_pass [OF Inr] bad show ?thesis by blast
  qed
next
  assume "check_marlin_kernels E = None \<and> quantization E \<noteq> None" and "nbits \<notin> {4, 8}"
  then show "repack_gptq_for_marlin E qw qz sc gi nbits desc_act groupsize quant_method symmetric
             sharded_infeatures = Inl (Raise RuntimeError (UnsupportedBits nbits))"
    using repack_bad_bits [of E _ nbits qw qz sc gi desc_act groupsize quant_method symmetric
             sharded_infeatures] by blast
next
  assume "check_marlin_kernels E = None \<and> quantization E \<noteq> None"
    and "nbits \<in> {4, 8} \<and> groupsize \<notin> {- 1, 32, 64, 128}"
  then show "repack_gptq_for_marlin E qw qz sc gi nbits desc_act groupsize quant_method symmetric
             sharded_infeatures = Inl (Raise RuntimeError (UnsupportedGroupSize groupsize))"
    using repack_bad_groupsize [of E _ nbits groupsize qw qz sc gi desc_act quant_method symmetric
             sharded_infeatures] by blast
next
  fix c b
  assume ok: "nbits \<in> {4, 8} \<and> groupsize \<in> {- 1, 32, 64, 128}"
  show "repack_gptq_for_marlin E qw qz sc gi nbits desc_act groupsize quant_method symmetric
             sharded_infeatures \<noteq> Inl (Raise c (UnsupportedBits b))"
  proof
    assume "repack_gptq_for_marlin E qw qz sc gi nbits desc_act groupsize quant_method symmetric
             sharded_infeatures = Inl (Raise c (UnsupportedBits b))"
    from repack_Inl_cases [OF this] ok show False by auto
  qed
next
  fix c g
  assume ok: "nbits \<in> {4, 8} \<and> groupsize \<in> {- 1, 32, 64, 128}"
  show "repack_gptq_for_marlin E qw qz sc gi nbits desc_act groupsize quant_method symmetric
             sharded_infeatures \<noteq> Inl (Raise c (UnsupportedGroupSize g))"
  proof
    assume "repack_gptq_for_marlin E qw qz sc gi nbits desc_act groupsize quant_method symmetric
             sharded_infeatures = Inl (Raise c (UnsupportedGroupSize g))"
    from repack_Inl_cases [OF this] ok show False by auto
  qed
qed

theorem repack_rejects_unsupported_witness:
  "repack_gptq_for_marlin sample_env sample_qweight None sample_scales None 3 False 128
     ''gptq'' True False = Inl (Raise RuntimeError (UnsupportedBits 3))
   \<and> repack_gptq_for_marlin sample_env sample_qweight None sample_scales None 4 False 16
     ''gptq'' True False = Inl (Raise RuntimeError (UnsupportedGroupSize 16))
   \<and> repack_gptq_for_marlin sample_env sample_qweight_rows4 None sample_scales None 4 False 32
     ''gptq'' True False \<noteq> Inl (Raise RuntimeError (UnsupportedBits 4))
   \<and> repack_gptq_for_marlin sample_env sample_qweight_rows4 None sample_scales None 4 False 32
     ''gptq'' True False \<noteq> Inl (Raise RuntimeError (UnsupportedGroupSize 32))"
  using repack_rejects_unsupported_bits_and_groupsize
      [of 3 128 sample_env sample_qweight None sample_scales None False "''gptq''" True False]
    repack_rejects_unsupported_bits_and_groupsize
      [of 4 16 sample_env sample_qweight None sample_scales None False "''gptq''" True False]
    repack_rejects_unsupported_bits_and_groupsize
      [of 4 32 sample_env sample_qweight_rows4 None sample_scales None False "''gptq''" True False]
  by (simp add: sample_env_def)

text \<open>
  The claim as first stated fails where both values are unsupported, the exception then
  naming the bit width and not the group size, and where the kernels are missing, the
  exception then being the one of the kernel check.
\<close>

theorem repack_rejects_unsupported_counterexample:
  "repack_gptq_for_marlin sample_env sample_qweight None sample_scales None 3 False 16
     ''gptq'' True False = Inl (Raise RuntimeError (UnsupportedBits 3))
   \<and> repack_gptq_for_marlin no_kernels_env sample_qweight None sample_scales None 3 False 16
     ''gptq'' True False =
     Inl (Raise NotImplementedError (External ''marlin kernels unavailable''))"
  by (simp add: repack_gptq_for_marlin_def sample_defs no_kernels_env_def)

text \<open>
  C2, as amended. The gate rejects asymmetric quantization for every method other than
  \<open>awq\<close> and \<open>compressed-tensors\<close>. When the kernel checks at the top of the function
  pass (\<^verbatim>\<open>_check_marlin_kernels()\<close> returns and \<^verbatim>\<open>quantization\<close> is not \<^verbatim>\<open>None\<close>),
  \<open>sym\<close> is false and \<open>quant_method\<close> is neither of the two, the call fails with one of
  the gate's three \<open>RuntimeError\<close>s, and with the one about asymmetric quantization when
  \<open>bits\<close> and \<open>groupsize\<close> are supported; no primitive has run by then. Whether or not
  the kernel checks pass, such a call fails. For \<open>sym\<close> true, or \<open>quant_method\<close> one of
  \<open>awq\<close> and \<open>compressed-tensors\<close>, the exception about asymmetric quantization is
  never raised.
\<close>

theorem repack_asymmetric_gate:
  "(check_marlin_kernels E = None \<and> quantization E \<noteq> None
      \<and> \<not> symmetric \<and> quant_method \<noteq> ''awq'' \<and> quant_method \<noteq> ''compressed-tensors'' \<longrightarrow>
        (\<exists>m. repack_gptq_for_marlin E qw qz sc gi nbits desc_act groupsize quant_method symmetric
                sharded_infeatures = Inl (Raise RuntimeError m)
            \<and> m \<in> {UnsupportedBits nbits, UnsupportedGroupSize groupsize, AsymmetricUnsupported})
      \<and> (nbits \<in> {4, 8} \<and> groupsize \<in> {- 1, 32, 64, 128} \<longrightarrow>
           repack_gptq_for_marlin E qw qz sc gi nbits desc_act groupsize quant_method symmetric
             sharded_infeatures = Inl (Raise RuntimeError AsymmetricUnsupported)))
   \<and> (symmetric \<or> quant_method = ''awq'' \<or> quant_method = ''compressed-tensors'' \<longrightarrow>
        (\<forall>c. repack_gptq_for_marlin E qw qz sc gi nbits desc_act groupsize quant_method symmetric
             sharded_infeatures \<noteq> Inl (Raise c AsymmetricUnsupported)))
   \<and> (\<not> symmetric \<and> quant_method \<noteq> ''awq'' \<and> quant_method \<noteq> ''compressed-tensors'' \<longrightarrow>
        (\<exists>e. repack_gptq_for_marlin E qw qz sc gi nbits desc_act groupsize quant_method symmetric
               sharded_infeatures = Inl e))"
proof (intro conjI impI allI)
  assume h: "check_marlin_kernels E = None \<and> quantization E \<noteq> None
      \<and> \<not> symmetric \<and> quant_method \<noteq> ''awq'' \<and> quant_method \<noteq> ''compressed-tensors''"
  then obtain Q where c: "check_marlin_kernels E = None" and q: "quantization E = Some Q"
    and a: "\<not> (symmetric \<or> quant_method = ''awq'' \<or> quant_method = ''compressed-tensors'')"
    by auto
  show "\<exists>m. repack_gptq_for_marlin E qw qz sc gi nbits desc_act groupsize quant_method symmetric
                sharded_infeatures = Inl (Raise RuntimeError m)
            \<and> m \<in> {UnsupportedBits nbits, UnsupportedGroupSize groupsize, AsymmetricUnsupported}"
  proof (cases "nbits \<in> {4, 8}")
    case False
    from repack_bad_bits [OF c q False] show ?thesis by blast
  next
    case b: True
    show ?thesis
    proof (cases "groupsize \<in> {- 1, 32, 64, 128}")
      case False
      from repack_bad_groupsize [OF c q b False] show ?thesis by blast
    next
      case True
      from repack_asymmetric [OF c q b True a] show ?thesis by blast
    qed
  qed
  assume "nbits \<in> {4, 8} \<and> groupsize \<in> {- 1, 32, 64, 128}"
  then have b: "nbits \<in> {4, 8}" and g: "groupsize \<in> {- 1, 32, 64, 128}" by simp_all
  from repack_asymmetric [OF c q b g a]
  show "repack_gptq_for_marlin E qw qz sc gi nbits desc_act groupsize quant_method symmetric
             sharded_infeatures = Inl (Raise RuntimeError AsymmetricUnsupported)" .
next
  fix c
  assume ok: "symmetric \<or> quant_method = ''awq'' \<or> quant_method = ''compressed-tensors''"
  show "repack_gptq_for_marlin E qw qz sc gi nbits desc_act groupsize quant_method symmetric
             sharded_infeatures \<noteq> Inl (Raise c AsymmetricUnsupported)"
  proof
    assume "repack_gptq_for_marlin E qw qz sc gi nbits desc_act groupsize quant_method symmetric
             sharded_infeatures = Inl (Raise c AsymmetricUnsupported)"
    from repack_Inl_cases [OF this] ok show False by auto
  qed
next
  assume n: "\<not> symmetric \<and> quant_method \<noteq> ''awq'' \<and> quant_method \<noteq> ''compressed-tensors''"
  show "\<exists>e. repack_gptq_for_marlin E qw qz sc gi nbits desc_act groupsize quant_method symmetric
               sharded_infeatures = Inl e"
  proof (cases "repack_gptq_for_marlin E qw qz sc gi nbits desc_act groupsize quant_method
                  symmetric sharded_infeatures")
    case (Inl e)
    then show ?thesis by blast
  next
    case (Inr w)
    from repack_gates_pass [OF Inr] n show ?thesis by blast
  qed
qed

theorem repack_asymmetric_gate_witness:
  "repack_gptq_for_marlin sample_env sample_qweight (Some sample_qzeros) sample_scales None 4
       False (- 1) ''gptq'' False False = Inl (Raise RuntimeError AsymmetricUnsupported)
   \<and> repack_gptq_for_marlin sample_env sample_qweight (Some sample_qzeros) sample_scales None 4
       False (- 1) ''compressed-tensors'' False False \<noteq> Inl (Raise RuntimeError AsymmetricUnsupported)"
  using repack_asymmetric_gate [of sample_env False "''gptq''" sample_qweight "Some sample_qzeros"
      sample_scales None 4 False "- 1" False]
    repack_asymmetric_gate [of sample_env False "''compressed-tensors''" sample_qweight
      "Some sample_qzeros" sample_scales None 4 False "- 1" False]
  by (simp add: sample_env_def)

text \<open>
  The claim as first stated, with \<open>awq\<close> the only exempt method, fails: an asymmetric
  \<open>compressed-tensors\<close> request passes the gate, and the call succeeds. And where the
  kernels are missing, an asymmetric \<open>gptq\<close> request fails with the exception of the
  kernel check, not with one of the gate.
\<close>

theorem repack_asymmetric_counterexample:
  "''compressed-tensors'' \<noteq> ''awq''
   \<and> repack_gptq_for_marlin sample_env sample_qweight (Some sample_qzeros) sample_scales None 4
       False (- 1) ''compressed-tensors'' False False =
     Inr \<lparr>qweight = sample_qweight, qzeros = sample_qzeros, scales = sample_scales,
          g_idx = torch_empty_int, perm = torch_empty_int, bits = 4, is_full_k = True\<rparr>
   \<and> repack_gptq_for_marlin no_kernels_env sample_qweight (Some sample_qzeros) sample_scales
       None 4 False (- 1) ''gptq'' False False =
     Inl (Raise NotImplementedError (External ''marlin kernels unavailable''))"
  by (simp add: repack_gptq_for_marlin_def sample_defs no_kernels_env_def)

text \<open>
  C7. With \<open>in_features\<close> derived from the packed shape (\<open>qweight.shape[0]\<close> for AWQ,
  which packs along the columns; \<open>qweight.shape[0] * (32 div bits)\<close> otherwise), a call
  that passes the earlier checks fails with the \<open>ValueError\<close> naming \<open>in_features\<close> and
  \<open>groupsize\<close> whenever \<open>in_features mod groupsize \<noteq> 0\<close>, and never raises it when
  \<open>groupsize\<close> divides \<open>in_features\<close>; with \<open>groupsize = -1\<close> it is never raised, for
  every input.
\<close>

theorem repack_divisibility_check:
  "(check_marlin_kernels E = None \<and> quantization E \<noteq> None
      \<and> nbits \<in> {4, 8} \<and> groupsize \<in> {- 1, 32, 64, 128}
      \<and> (symmetric \<or> quant_method = ''awq'' \<or> quant_method = ''compressed-tensors'')
      \<and> shape qw = s0 # s1 # rest \<longrightarrow>
        (in_features_of quant_method nbits s0 mod groupsize \<noteq> 0 \<longrightarrow>
           repack_gptq_for_marlin E qw qz sc gi nbits desc_act groupsize quant_method symmetric
             sharded_infeatures =
           Inl (Raise ValueError (NotDivisible (in_features_of quant_method nbits s0) groupsize)))
      \<and> (in_features_of quant_method nbits s0 mod groupsize = 0 \<longrightarrow>
           (\<forall>c a b. repack_gptq_for_marlin E qw qz sc gi nbits desc_act groupsize quant_method
                       symmetric sharded_infeatures \<noteq> Inl (Raise c (NotDivisible a b)))))
   \<and> (groupsize = - 1 \<longrightarrow>
        (\<forall>c a b. repack_gptq_for_marlin E qw qz sc gi nbits desc_act groupsize quant_method
                    symmetric sharded_infeatures \<noteq> Inl (Raise c (NotDivisible a b))))
   \<and> in_features_of ''awq'' nbits s0 = int s0
   \<and> (quant_method \<noteq> ''awq'' \<longrightarrow> in_features_of quant_method nbits s0 = int s0 * (32 div nbits))"
proof (intro conjI impI allI)
  assume h: "check_marlin_kernels E = None \<and> quantization E \<noteq> None
      \<and> nbits \<in> {4, 8} \<and> groupsize \<in> {- 1, 32, 64, 128}
      \<and> (symmetric \<or> quant_method = ''awq'' \<or> quant_method = ''compressed-tensors'')
      \<and> shape qw = s0 # s1 # rest"
  then obtain Q where c: "check_marlin_kernels E = None" and q: "quantization E = Some Q"
    and b: "nbits \<in> {4, 8}" and g: "groupsize \<in> {- 1, 32, 64, 128}"
    and a: "symmetric \<or> quant_method = ''awq'' \<or> quant_method = ''compressed-tensors''"
    and s: "shape qw = s0 # s1 # rest"
    by auto
  {
    assume d: "in_features_of quant_method nbits s0 mod groupsize \<noteq> 0"
    from repack_not_divisible [OF c q b g a s d]
    show "repack_gptq_for_marlin E qw qz sc gi nbits desc_act groupsize quant_method symmetric
             sharded_infeatures =
           Inl (Raise ValueError (NotDivisible (in_features_of quant_method nbits s0) groupsize))" .
  }
  {
    fix k x y
    assume d: "in_features_of quant_method nbits s0 mod groupsize = 0"
    show "repack_gptq_for_marlin E qw qz sc gi nbits desc_act groupsize quant_method
                       symmetric sharded_infeatures \<noteq> Inl (Raise k (NotDivisible x y))"
    proof
      assume "repack_gptq_for_marlin E qw qz sc gi nbits desc_act groupsize quant_method
                       symmetric sharded_infeatures = Inl (Raise k (NotDivisible x y))"
      from repack_Inl_cases [OF this] s d show False by auto
    qed
  }
next
  fix k x y
  assume m: "groupsize = - 1"
  show "repack_gptq_for_marlin E qw qz sc gi nbits desc_act groupsize quant_method
                       symmetric sharded_infeatures \<noteq> Inl (Raise k (NotDivisible x y))"
  proof
    assume "repack_gptq_for_marlin E qw qz sc gi nbits desc_act groupsize quant_method
                       symmetric sharded_infeatures = Inl (Raise k (NotDivisible x y))"
    from repack_Inl_cases [OF this] m show False by auto
  qed
next
  show "in_features_of ''awq'' nbits s0 = int s0" by (simp add: in_features_of_def)
next
  assume "quant_method \<noteq> ''awq''"
  then show "in_features_of quant_method nbits s0 = int s0 * (32 div nbits)"
    by (simp add: in_features_of_def)
qed

theorem repack_divisibility_witness:
  "repack_gptq_for_marlin sample_env sample_qweight None sample_scales None 4 False 32
       ''gptq'' True False = Inl (Raise ValueError (NotDivisible 8 32))
   \<and> repack_gptq_for_marlin sample_env sample_qweight None sample_scales None 4 False (- 1)
       ''gptq'' True False \<noteq> Inl (Raise ValueError (NotDivisible 8 (- 1)))
   \<and> repack_gptq_for_marlin sample_env sample_qweight_rows4 None sample_scales None 4 False 32
       ''gptq'' True False \<noteq> Inl (Raise ValueError (NotDivisible 32 32))"
  using repack_divisibility_check [of sample_env 4 32 True "''gptq''" sample_qweight 1 1 "[]"
      None sample_scales None False False]
    repack_divisibility_check [of sample_env 4 "- 1" True "''gptq''" sample_qweight 1 1 "[]"
      None sample_scales None False False]
    repack_divisibility_check [of sample_env 4 32 True "''gptq''" sample_qweight_rows4 4 1 "[]"
      None sample_scales None False False]
  by (simp add: sample_env_def sample_qweight_def sample_qweight_rows4_def in_features_of_def)

text \<open>
  C10. A \<^verbatim>\<open>GPTQMarlinWeight\<close> that is constructed holds the given fields and satisfies the
  assertions of \<^verbatim>\<open>__post_init__\<close>: \<open>qweight\<close> is int32, \<open>scales\<close> is float16 or
  bfloat16, \<open>g_idx\<close> and \<open>perm\<close> are int32. Construction fails with an
  \<open>AssertionError\<close> for any fields that violate this. Every result of
  \<^verbatim>\<open>repack_gptq_for_marlin\<close> satisfies it.
\<close>

theorem GPTQMarlinWeight_dtype_invariant:
  "(new_GPTQMarlinWeight qw qz sc gi pm nbits full_k = Inr w \<longrightarrow>
      w = \<lparr>qweight = qw, qzeros = qz, scales = sc, g_idx = gi, perm = pm, bits = nbits,
           is_full_k = full_k\<rparr>
      \<and> dtype (qweight w) = Int32 \<and> dtype (scales w) \<in> {Float16, BFloat16}
      \<and> dtype (g_idx w) = Int32 \<and> dtype (perm w) = Int32)
   \<and> (\<not> (dtype qw = Int32 \<and> dtype sc \<in> {Float16, BFloat16} \<and> dtype gi = Int32
          \<and> dtype pm = Int32) \<longrightarrow>
      new_GPTQMarlinWeight qw qz sc gi pm nbits full_k = Inl (Raise AssertionError NoMessage))
   \<and> (repack_gptq_for_marlin E rqw rqz rsc rgi rbits desc_act groupsize quant_method symmetric
         sharded_infeatures = Inr w' \<longrightarrow>
      dtype (qweight w') = Int32 \<and> dtype (scales w') \<in> {Float16, BFloat16}
      \<and> dtype (g_idx w') = Int32 \<and> dtype (perm w') = Int32)"
proof (intro conjI impI)
  assume r: "repack_gptq_for_marlin E rqw rqz rsc rgi rbits desc_act groupsize quant_method
         symmetric sharded_infeatures = Inr w'"
  from repack_gates_pass [OF r] obtain Q s0 s1 rest where
    "quantization E = Some Q" and "shape rqw = s0 # s1 # rest" by blast
  from repack_Inr_D(7) [OF r this]
  show "dtype (qweight w') = Int32" "dtype (scales w') \<in> {Float16, BFloat16}"
    "dtype (g_idx w') = Int32" "dtype (perm w') = Int32" by simp_all
qed (auto simp: new_GPTQMarlinWeight_def split: if_splits)

theorem GPTQMarlinWeight_dtype_invariant_witness:
  "new_GPTQMarlinWeight sample_qweight torch_empty_int sample_scales torch_empty_int
     torch_empty_int 4 True =
   Inr \<lparr>qweight = sample_qweight, qzeros = torch_empty_int, scales = sample_scales,
        g_idx = torch_empty_int, perm = torch_empty_int, bits = 4, is_full_k = True\<rparr>
   \<and> new_GPTQMarlinWeight sample_scales torch_empty_int sample_scales torch_empty_int
     torch_empty_int 4 True = Inl (Raise AssertionError NoMessage)
   \<and> map_sum id (\<lambda>w. (dtype (qweight w), dtype (scales w), dtype (g_idx w), dtype (perm w)))
       (repack_gptq_for_marlin sample_env sample_qweight None sample_scales None 4 False (- 1)
          ''gptq'' True False) = Inr (Int32, Float16, Int32, Int32)"
proof -
  obtain w' where r: "repack_gptq_for_marlin sample_env sample_qweight None sample_scales
      None 4 False (- 1) ''gptq'' True False = Inr w'"
    by (simp add: repack_gptq_for_marlin_def sample_defs)
  obtain w where n: "new_GPTQMarlinWeight sample_qweight torch_empty_int sample_scales
      torch_empty_int torch_empty_int 4 True = Inr w"
    by (simp add: sample_defs)
  have s: "dtype (scales w') = Float16"
    using r by (auto simp: repack_gptq_for_marlin_def sample_defs)
  from GPTQMarlinWeight_dtype_invariant [of sample_qweight torch_empty_int sample_scales
      torch_empty_int torch_empty_int 4 True w sample_env sample_qweight None sample_scales None
      4 False "- 1" "''gptq''" True False w']
    GPTQMarlinWeight_dtype_invariant [of sample_scales torch_empty_int sample_scales
      torch_empty_int torch_empty_int 4 True w sample_env sample_qweight None sample_scales None
      4 False "- 1" "''gptq''" True False w']
    r n s
  show ?thesis by (simp add: sample_scales_def)
qed

text \<open>
  C3, as amended. When \<open>g_idx\<close> is present, \<open>desc_act\<close> is declared and \<open>groupsize\<close>
  is not \<open>-1\<close>, a successful call emits as \<open>perm\<close> the indices that
  \<^verbatim>\<open>torch.argsort(g_idx)\<close> returns, as int32, and as \<open>g_idx\<close> the tensor \<open>g_idx[perm]\<close>.
  Since \<^verbatim>\<open>torch.argsort\<close> sorts, \<open>perm\<close> is a permutation of the input-feature indices
  in ascending order of their group id and the emitted \<open>g_idx\<close> is non-decreasing; the
  order among indices of the same group id is the one torch happens to return, the call
  not asking for a stable sort. In every other case both \<open>perm\<close> and \<open>g_idx\<close> are the
  empty int32 tensor. This holds for every \<open>quant_method\<close>, the row-packed ones among
  them.
\<close>

theorem repack_channel_permutation:
  assumes "repack_gptq_for_marlin E qw qz sc gi nbits desc_act groupsize quant_method symmetric
             sharded_infeatures = Inr w"
  shows "(gi = Some g \<and> desc_act \<and> groupsize \<noteq> - 1 \<longrightarrow>
            perm w = \<lparr>dtype = Int32, shape = [length (data g)],
                      data = map int (torch_argsort_indices E (data g))\<rparr>
          \<and> g_idx w = \<lparr>dtype = dtype g, shape = [length (data g)],
                       data = map (\<lambda>i. data g ! i) (torch_argsort_indices E (data g))\<rparr>
          \<and> (sorts_ascending (data g) (torch_argsort_indices E (data g)) \<longrightarrow>
                set (torch_argsort_indices E (data g)) = {0..<length (data g)}
              \<and> distinct (torch_argsort_indices E (data g))
              \<and> sorted (data (g_idx w))))
       \<and> (\<not> (gi \<noteq> None \<and> desc_act \<and> groupsize \<noteq> - 1) \<longrightarrow>
            perm w = torch_empty_int \<and> g_idx w = torch_empty_int)"
proof -
  from repack_gates_pass [OF assms] obtain Q s0 s1 rest where
    q: "quantization E = Some Q" and s: "shape qw = s0 # s1 # rest" by blast
  note p = repack_Inr_D(1) [OF assms q s]
  show ?thesis
  proof (intro conjI impI)
    assume c: "gi = Some g \<and> desc_act \<and> groupsize \<noteq> - 1"
    with p have pm: "perm w = to_dtype (torch_argsort E g) Int32"
      and ix: "index_tensor g (perm w) = Inr (g_idx w)" by auto
    show pw: "perm w = \<lparr>dtype = Int32, shape = [length (data g)],
                      data = map int (torch_argsort_indices E (data g))\<rparr>"
      by (simp add: pm to_dtype_def torch_argsort_def)
    from ix show gw: "g_idx w = \<lparr>dtype = dtype g, shape = [length (data g)],
                       data = map (\<lambda>i. data g ! i) (torch_argsort_indices E (data g))\<rparr>"
      unfolding pw by (rule index_tensor_nat_indices)
    assume a: "sorts_ascending (data g) (torch_argsort_indices E (data g))"
    then show "set (torch_argsort_indices E (data g)) = {0..<length (data g)}"
      and "distinct (torch_argsort_indices E (data g))"
      by (simp_all add: sorts_ascending_def)
    from a show "sorted (data (g_idx w))" by (simp add: gw sorts_ascending_def)
  next
    assume "\<not> (gi \<noteq> None \<and> desc_act \<and> groupsize \<noteq> - 1)"
    with p show "perm w = torch_empty_int" "g_idx w = torch_empty_int" by auto
  qed
qed

theorem repack_channel_permutation_witness:
  "map_sum id (\<lambda>w. (data (perm w), data (g_idx w), sorted (data (g_idx w))))
     (repack_gptq_for_marlin sample_env sample_qweight_rows8 None sample_scales_2x1
        (Some sample_g_idx) 4 True 32 ''gptq'' True False) =
   Inr ([1, 3, 5, 7, 9, 11, 13, 15, 17, 19, 21, 23, 25, 27, 29, 31,
         33, 35, 37, 39, 41, 43, 45, 47, 49, 51, 53, 55, 57, 59, 61, 63,
         0, 2, 4, 6, 8, 10, 12, 14, 16, 18, 20, 22, 24, 26, 28, 30,
         32, 34, 36, 38, 40, 42, 44, 46, 48, 50, 52, 54, 56, 58, 60, 62],
        replicate 32 0 @ replicate 32 1, True)
   \<and> map_sum id (\<lambda>w. (perm w, g_idx w))
     (repack_gptq_for_marlin sample_env sample_qweight_rows8 None sample_scales_2x1
        (Some sample_g_idx) 4 False 32 ''gptq'' True False) =
   Inr (torch_empty_int, torch_empty_int)"
proof -
  obtain w where r: "repack_gptq_for_marlin sample_env sample_qweight_rows8 None
      sample_scales_2x1 (Some sample_g_idx) 4 True 32 ''gptq'' True False = Inr w"
    using sample_repack_perm [of sample_env argsort]
    by (simp add: sample_env_def argsort_sorts_ascending)
  obtain w' where r': "repack_gptq_for_marlin sample_env sample_qweight_rows8 None
      sample_scales_2x1 (Some sample_g_idx) 4 False 32 ''gptq'' True False = Inr w'"
    by (simp add: repack_gptq_for_marlin_def sample_env_def sample_kernels_def
          sample_qweight_rows8_def sample_scales_2x1_def gate_defs new_GPTQMarlinWeight_def
          to_dtype_def torch_empty_int_def)
  have d: "data sample_g_idx = sample_g_idx_data" by (simp add: sample_g_idx_def)
  have f: "torch_argsort_indices sample_env = argsort" by (simp add: sample_env_def)
  have c: "Some sample_g_idx = Some sample_g_idx \<and> True \<and> (32::int) \<noteq> - 1" by simp
  have a: "sorts_ascending (data sample_g_idx) (torch_argsort_indices sample_env (data sample_g_idx))"
    by (simp add: f argsort_sorts_ascending)
  note t = repack_channel_permutation [OF r, of sample_g_idx, THEN conjunct1, THEN mp, OF c]
  from t have pw: "data (perm w) = map int (argsort sample_g_idx_data)"
    and gw: "data (g_idx w) = map (\<lambda>i. sample_g_idx_data ! i) (argsort sample_g_idx_data)"
    by (simp_all add: d f)
  from t [THEN conjunct2, THEN conjunct2, THEN mp, OF a]
  have sw: "sorted (data (g_idx w))" by simp
  have c': "\<not> (Some sample_g_idx \<noteq> None \<and> False \<and> (32::int) \<noteq> - 1)" by simp
  from repack_channel_permutation [OF r', of sample_g_idx, THEN conjunct2, THEN mp, OF c']
  have e: "perm w' = torch_empty_int \<and> g_idx w' = torch_empty_int" .
  have "data (perm w) = [1, 3, 5, 7, 9, 11, 13, 15, 17, 19, 21, 23, 25, 27, 29, 31,
         33, 35, 37, 39, 41, 43, 45, 47, 49, 51, 53, 55, 57, 59, 61, 63,
         0, 2, 4, 6, 8, 10, 12, 14, 16, 18, 20, 22, 24, 26, 28, 30,
         32, 34, 36, 38, 40, 42, 44, 46, 48, 50, 52, 54, 56, 58, 60, 62]"
    unfolding pw sample_argsort by simp
  then show ?thesis using r r' e sw by (simp add: gw sample_gather_stable)
qed

text \<open>
  The claim as first stated, with \<open>perm\<close> the permutation of the stable sort, fails: with
  a \<^verbatim>\<open>torch.argsort\<close> that returns equal values in descending order of their index (a
  sorting permutation as well) the emitted \<open>g_idx\<close> is the same non-decreasing sequence,
  and \<open>perm\<close> is not the stable one.
\<close>

theorem repack_channel_permutation_counterexample:
  "sorts_ascending sample_g_idx_data (torch_argsort_indices reverse_tie_env sample_g_idx_data)
   \<and> map_sum id (\<lambda>w. (data (perm w), data (g_idx w)))
     (repack_gptq_for_marlin reverse_tie_env sample_qweight_rows8 None sample_scales_2x1
        (Some sample_g_idx) 4 True 32 ''gptq'' True False) =
     Inr ([63, 61, 59, 57, 55, 53, 51, 49, 47, 45, 43, 41, 39, 37, 35, 33,
         31, 29, 27, 25, 23, 21, 19, 17, 15, 13, 11, 9, 7, 5, 3, 1,
         62, 60, 58, 56, 54, 52, 50, 48, 46, 44, 42, 40, 38, 36, 34, 32,
         30, 28, 26, 24, 22, 20, 18, 16, 14, 12, 10, 8, 6, 4, 2, 0],
          replicate 32 0 @ replicate 32 1)
   \<and> map int (argsort sample_g_idx_data) =
        [1, 3, 5, 7, 9, 11, 13, 15, 17, 19, 21, 23, 25, 27, 29, 31,
         33, 35, 37, 39, 41, 43, 45, 47, 49, 51, 53, 55, 57, 59, 61, 63,
         0, 2, 4, 6, 8, 10, 12, 14, 16, 18, 20, 22, 24, 26, 28, 30,
         32, 34, 36, 38, 40, 42, 44, 46, 48, 50, 52, 54, 56, 58, 60, 62]
   \<and> map_sum id (\<lambda>w. data (perm w))
     (repack_gptq_for_marlin reverse_tie_env sample_qweight_rows8 None sample_scales_2x1
        (Some sample_g_idx) 4 True 32 ''gptq'' True False)
       \<noteq> Inr (map int (argsort sample_g_idx_data))"
proof -
  have f: "torch_argsort_indices reverse_tie_env = argsort_reverse_ties"
    by (simp add: reverse_tie_env_def)
  have r: "repack_gptq_for_marlin reverse_tie_env sample_qweight_rows8 None sample_scales_2x1
           (Some sample_g_idx) 4 True 32 ''gptq'' True False =
         Inr \<lparr>qweight = sample_qweight_rows8, qzeros = torch_empty_int,
              scales = sample_scales_2x1,
              g_idx = \<lparr>dtype = Int32, shape = [64],
                       data = map (\<lambda>i. sample_g_idx_data ! i)
                                (argsort_reverse_ties sample_g_idx_data)\<rparr>,
              perm = \<lparr>dtype = Int32, shape = [64],
                      data = map int (argsort_reverse_ties sample_g_idx_data)\<rparr>,
              bits = 4, is_full_k = True\<rparr>"
    by (rule sample_repack_perm)
       (simp_all add: reverse_tie_env_def sample_env_def argsort_reverse_ties_sorts_ascending)
  have 1: "sorts_ascending sample_g_idx_data
             (torch_argsort_indices reverse_tie_env sample_g_idx_data)"
    by (simp add: f argsort_reverse_ties_sorts_ascending)
  have 2: "map_sum id (\<lambda>w. (data (perm w), data (g_idx w)))
     (repack_gptq_for_marlin reverse_tie_env sample_qweight_rows8 None sample_scales_2x1
        (Some sample_g_idx) 4 True 32 ''gptq'' True False) =
     Inr (map int (argsort_reverse_ties sample_g_idx_data), replicate 32 0 @ replicate 32 1)"
    by (simp add: r sample_gather_reverse_ties)
  have 3: "map_sum id (\<lambda>w. data (perm w))
     (repack_gptq_for_marlin reverse_tie_env sample_qweight_rows8 None sample_scales_2x1
        (Some sample_g_idx) 4 True 32 ''gptq'' True False) =
     Inr (map int (argsort_reverse_ties sample_g_idx_data))"
    by (simp add: r)
  show ?thesis
    unfolding 2 3 sample_argsort sample_argsort_reverse_ties using 1 by simp
qed

text \<open>
  C1. What the source does with zero-points where the claim has them unpacked and
  repacked. On the row-packed path (every \<open>quant_method\<close> other than \<open>awq\<close>) a
  successful call returns the zero-point tensor it was given, as it is, and returns the
  same result whatever \<open>unpack_cols\<close> and \<open>marlin_zero_points\<close> compute: neither runs.
  On the \<open>awq\<close> path the returned zero-points are \<^verbatim>\<open>awq_to_marlin_zero_points\<close> of the
  given ones. When zero-points are absent the result holds the empty int32 tensor, on
  both paths.
\<close>

theorem repack_qzeros:
  assumes "repack_gptq_for_marlin E qw qz sc gi nbits desc_act groupsize quant_method symmetric
             sharded_infeatures = Inr w"
  shows "(quant_method \<noteq> ''awq'' \<longrightarrow>
            qzeros w = (case qz of None \<Rightarrow> torch_empty_int | Some z \<Rightarrow> z)
          \<and> (\<forall>u m. repack_gptq_for_marlin (E\<lparr>unpack_cols := u, marlin_zero_points := m\<rparr>)
                     qw qz sc gi nbits desc_act groupsize quant_method symmetric
                     sharded_infeatures = Inr w))
       \<and> (qz = None \<longrightarrow> qzeros w = torch_empty_int)
       \<and> (quant_method = ''awq'' \<longrightarrow>
            (\<forall>z. qz = Some z \<longrightarrow>
               (\<exists>s0 s1 rest. shape qw = s0 # s1 # rest
                  \<and> awq_to_marlin_zero_points E z (int s0 div groupsize)
                       (int s1 * (32 div nbits)) nbits = Inr (qzeros w))))"
proof -
  from repack_gates_pass [OF assms] obtain Q s0 s1 rest where
    q: "quantization E = Some Q" and s: "shape qw = s0 # s1 # rest" by blast
  note z = repack_Inr_D(2) [OF assms q s]
  show ?thesis
  proof (intro conjI impI allI)
    assume "quant_method \<noteq> ''awq''"
    with z show "qzeros w = (case qz of None \<Rightarrow> torch_empty_int | Some z \<Rightarrow> z)" by simp
  next
    fix u m
    assume "quant_method \<noteq> ''awq''"
    from repack_row_packed_ignores_zero_point_primitives [OF this] assms
    show "repack_gptq_for_marlin (E\<lparr>unpack_cols := u, marlin_zero_points := m\<rparr>)
            qw qz sc gi nbits desc_act groupsize quant_method symmetric sharded_infeatures = Inr w"
      by simp
  next
    assume "qz = None"
    with z show "qzeros w = torch_empty_int" by (cases "quant_method = ''awq''") simp_all
  next
    fix z'
    assume "quant_method = ''awq''" and "qz = Some z'"
    with z s show "\<exists>s0 s1 rest. shape qw = s0 # s1 # rest
                  \<and> awq_to_marlin_zero_points E z' (int s0 div groupsize)
                       (int s1 * (32 div nbits)) nbits = Inr (qzeros w)"
      by (simp add: in_features_of_def out_features_of_def)
  qed
qed

theorem repack_qzeros_witness:
  "map_sum id qzeros
     (repack_gptq_for_marlin sample_env sample_qweight_4x8 (Some sample_qzeros_lane1)
        sample_scales_1x8 None 4 False 32 ''compressed-tensors'' False False)
       = Inr sample_qzeros_lane1
   \<and> map_sum id qzeros
     (repack_gptq_for_marlin
        (sample_env\<lparr>unpack_cols := (\<lambda>t b k n. Inl (AssertionError, ''not called'')),
                    marlin_zero_points := (\<lambda>t k n b. Inl (AssertionError, ''not called''))\<rparr>)
        sample_qweight_4x8 (Some sample_qzeros_lane1)
        sample_scales_1x8 None 4 False 32 ''compressed-tensors'' False False)
       = Inr sample_qzeros_lane1
   \<and> map_sum id qzeros
     (repack_gptq_for_marlin sample_env sample_qweight_4x8 None
        sample_scales_1x8 None 4 False 32 ''gptq'' True False) = Inr torch_empty_int"
proof -
  obtain w where r: "repack_gptq_for_marlin sample_env sample_qweight_4x8
      (Some sample_qzeros_lane1) sample_scales_1x8 None 4 False 32 ''compressed-tensors''
      False False = Inr w"
    by (simp add: repack_gptq_for_marlin_def sample_defs)
  obtain w' where r': "repack_gptq_for_marlin sample_env sample_qweight_4x8 None
      sample_scales_1x8 None 4 False 32 ''gptq'' True False = Inr w'"
    by (simp add: repack_gptq_for_marlin_def sample_defs)
  have n: "''compressed-tensors'' \<noteq> ''awq''" by simp
  note t = repack_qzeros [OF r, THEN conjunct1, THEN mp, OF n]
  from t have 1: "qzeros w = sample_qzeros_lane1" by simp
  from t have 2: "repack_gptq_for_marlin
        (sample_env\<lparr>unpack_cols := (\<lambda>t b k n. Inl (AssertionError, ''not called'')),
                    marlin_zero_points := (\<lambda>t k n b. Inl (AssertionError, ''not called''))\<rparr>)
        sample_qweight_4x8 (Some sample_qzeros_lane1)
        sample_scales_1x8 None 4 False 32 ''compressed-tensors'' False False = Inr w"
    by blast
  from repack_qzeros [OF r'] have 3: "qzeros w' = torch_empty_int" by simp
  show ?thesis by (simp add: r r' 1 2 3)
qed

text \<open>
  C4. In \<^verbatim>\<open>awq_to_marlin_zero_points\<close>, with \<open>q\<close> the unpacked zero-points that
  \<open>unpack_cols\<close> returns: for 4 bits every consecutive block of 8 values of the flattened
  \<open>q\<close> is reordered by \<open>[0,4,1,5,2,6,3,7]\<close>, the inverse of the interleave
  \<open>[0,2,4,6,1,3,5,7]\<close>; for 8 bits every block of 4 by \<open>[0,2,1,3]\<close>, which is its own
  inverse. The reordered values, reshaped to rows of \<open>size_n\<close> (so to
  \<open>(size_k, size_n)\<close> when \<open>q\<close> has \<open>size_k * size_n\<close> values), are what
  \<open>marlin_zero_points\<close> receives. For every bit width other than 4 and 8 the call fails:
  with the exception naming the bit width once \<open>unpack_cols\<close> has returned.
\<close>

theorem awq_to_marlin_zero_points_undo_interleave:
  "(unpack_cols E p nb k n = Inr q \<and> nb = 4 \<and> length (data q) mod 8 = 0
      \<and> 0 < n \<and> int (length (data q)) mod n = 0 \<longrightarrow>
      awq_to_marlin_zero_points E p k n nb =
        call_ext (marlin_zero_points E
          \<lparr>dtype = dtype q, shape = [length (data q) div nat n, nat n],
           data = map (\<lambda>i. data q ! (i div 8 * 8 + [0, 4, 1, 5, 2, 6, 3, 7] ! (i mod 8)))
                    [0..<length (data q)]\<rparr> k n nb))
   \<and> (unpack_cols E p nb k n = Inr q \<and> nb = 8 \<and> length (data q) mod 4 = 0
      \<and> 0 < n \<and> int (length (data q)) mod n = 0 \<longrightarrow>
      awq_to_marlin_zero_points E p k n nb =
        call_ext (marlin_zero_points E
          \<lparr>dtype = dtype q, shape = [length (data q) div nat n, nat n],
           data = map (\<lambda>i. data q ! (i div 4 * 4 + [0, 2, 1, 3] ! (i mod 4)))
                    [0..<length (data q)]\<rparr> k n nb))
   \<and> (\<forall>j < 8. [0, 2, 4, 6, 1, 3, 5, 7] ! ([0, 4, 1, 5, 2, 6, 3, 7] ! j) = (j::nat)
               \<and> [0, 4, 1, 5, 2, 6, 3, 7] ! ([0, 2, 4, 6, 1, 3, 5, 7] ! j) = j)
   \<and> (\<forall>j < 4. [0, 2, 1, 3] ! ([0, 2, 1, 3] ! j) = (j::nat))
   \<and> (0 < n \<and> length (data q) = nat k * nat n \<longrightarrow> length (data q) div nat n = nat k)
   \<and> (nb \<noteq> 4 \<and> nb \<noteq> 8 \<longrightarrow> (\<exists>e. awq_to_marlin_zero_points E p k n nb = Inl e))
   \<and> (nb \<noteq> 4 \<and> nb \<noteq> 8 \<and> unpack_cols E p nb k n = Inr q \<longrightarrow>
        awq_to_marlin_zero_points E p k n nb = Inl (Raise Exception (NumBitsMustBe4or8 nb)))"
proof (intro conjI impI)
  assume h: "unpack_cols E p nb k n = Inr q \<and> nb = 4 \<and> length (data q) mod 8 = 0
      \<and> 0 < n \<and> int (length (data q)) mod n = 0"
  have i: "length [0, 4, 1, 5, 2, 6, 3, 7::nat] = 8" "(0::nat) < 8"
    "\<forall>j \<in> set [0, 4, 1, 5, 2, 6, 3, 7::nat]. j < 8" by simp_all
  from h have u: "unpack_cols E p 4 k n = Inr q" and nb: "nb = 4"
    and d: "length (data q) mod 8 = 0" and n: "0 < n" "int (length (data q)) mod n = 0"
    by auto
  from undo_interleave_step [OF i d n]
  show "awq_to_marlin_zero_points E p k n nb =
        call_ext (marlin_zero_points E
          \<lparr>dtype = dtype q, shape = [length (data q) div nat n, nat n],
           data = map (\<lambda>i. data q ! (i div 8 * 8 + [0, 4, 1, 5, 2, 6, 3, 7] ! (i mod 8)))
                    [0..<length (data q)]\<rparr> k n nb)"
    by (simp add: awq_to_marlin_zero_points_def argsort_interleave_4 u nb)
next
  assume h: "unpack_cols E p nb k n = Inr q \<and> nb = 8 \<and> length (data q) mod 4 = 0
      \<and> 0 < n \<and> int (length (data q)) mod n = 0"
  have i: "length [0, 2, 1, 3::nat] = 4" "(0::nat) < 4"
    "\<forall>j \<in> set [0, 2, 1, 3::nat]. j < 4" by simp_all
  from h have u: "unpack_cols E p 8 k n = Inr q" and nb: "nb = 8"
    and d: "length (data q) mod 4 = 0" and n: "0 < n" "int (length (data q)) mod n = 0"
    by auto
  from undo_interleave_step [OF i d n]
  show "awq_to_marlin_zero_points E p k n nb =
        call_ext (marlin_zero_points E
          \<lparr>dtype = dtype q, shape = [length (data q) div nat n, nat n],
           data = map (\<lambda>i. data q ! (i div 4 * 4 + [0, 2, 1, 3] ! (i mod 4)))
                    [0..<length (data q)]\<rparr> k n nb)"
    by (simp add: awq_to_marlin_zero_points_def argsort_interleave_8 u nb)
next
  show "\<forall>j < 8. [0, 2, 4, 6, 1, 3, 5, 7] ! ([0, 4, 1, 5, 2, 6, 3, 7] ! j) = (j::nat)
               \<and> [0, 4, 1, 5, 2, 6, 3, 7] ! ([0, 2, 4, 6, 1, 3, 5, 7] ! j) = j"
    by (simp add: All_less_Suc eval_nat_numeral)
next
  show "\<forall>j < 4. [0, 2, 1, 3] ! ([0, 2, 1, 3] ! j) = (j::nat)"
    by (simp add: All_less_Suc eval_nat_numeral)
next
  assume "0 < n \<and> length (data q) = nat k * nat n"
  then show "length (data q) div nat n = nat k" by simp
next
  assume b: "nb \<noteq> 4 \<and> nb \<noteq> 8"
  show "\<exists>e. awq_to_marlin_zero_points E p k n nb = Inl e"
    using b by (cases "unpack_cols E p nb k n") (simp_all add: awq_to_marlin_zero_points_def)
next
  assume "nb \<noteq> 4 \<and> nb \<noteq> 8 \<and> unpack_cols E p nb k n = Inr q"
  then show "awq_to_marlin_zero_points E p k n nb = Inl (Raise Exception (NumBitsMustBe4or8 nb))"
    by (simp add: awq_to_marlin_zero_points_def)
qed

theorem awq_to_marlin_zero_points_witness:
  "awq_to_marlin_zero_points sample_env sample_qzeros 1 8 4 =
     call_ext (marlin_zero_points sample_env
       \<lparr>dtype = Int32, shape = [1, 8], data = [0, 4, 1, 5, 2, 6, 3, 7]\<rparr> 1 8 4)
   \<and> awq_to_marlin_zero_points sample_env
       \<lparr>dtype = Int32, shape = [1, 1], data = [50462976]\<rparr> 1 4 8 =
     call_ext (marlin_zero_points sample_env
       \<lparr>dtype = Int32, shape = [1, 4], data = [0, 2, 1, 3]\<rparr> 1 4 8)
   \<and> awq_to_marlin_zero_points sample_env sample_qzeros 1 16 2 =
     Inl (Raise Exception (NumBitsMustBe4or8 2))"
proof -
  let ?q4 = "\<lparr>dtype = Int32, shape = [1, 8], data = [0, 1, 2, 3, 4, 5, 6, 7]\<rparr>"
  let ?q8 = "\<lparr>dtype = Int32, shape = [1, 4], data = [0, 1, 2, 3]\<rparr>"
  let ?z8 = "\<lparr>dtype = Int32, shape = [1, 1], data = [50462976]\<rparr>"
  have u4: "unpack_cols sample_env sample_qzeros 4 1 8 = Inr ?q4"
    by (simp add: sample_env_def sample_unpack_cols_def sample_qzeros_def upt_0_8)
  have u8: "unpack_cols sample_env ?z8 8 1 4 = Inr ?q8"
    by (simp add: sample_env_def sample_unpack_cols_def upt_0_4)
  obtain q2 where u2: "unpack_cols sample_env sample_qzeros 2 1 16 = Inr q2"
    by (simp add: sample_env_def sample_unpack_cols_def sample_qzeros_def)
  have h4: "unpack_cols sample_env sample_qzeros 4 1 8 = Inr ?q4 \<and> (4::int) = 4
      \<and> length (data ?q4) mod 8 = 0 \<and> (0::int) < 8 \<and> int (length (data ?q4)) mod 8 = 0"
    using u4 by simp
  have h8: "unpack_cols sample_env ?z8 8 1 4 = Inr ?q8 \<and> (8::int) = 8
      \<and> length (data ?q8) mod 4 = 0 \<and> (0::int) < 4 \<and> int (length (data ?q8)) mod 4 = 0"
    using u8 by simp
  have h2: "(2::int) \<noteq> 4 \<and> (2::int) \<noteq> 8 \<and> unpack_cols sample_env sample_qzeros 2 1 16 = Inr q2"
    using u2 by simp
  note t4 = awq_to_marlin_zero_points_undo_interleave
      [of sample_env sample_qzeros 4 1 8 ?q4, THEN conjunct1, THEN mp, OF h4]
  note t8 = awq_to_marlin_zero_points_undo_interleave
      [of sample_env ?z8 8 1 4 ?q8, THEN conjunct2, THEN conjunct1, THEN mp, OF h8]
  note t2 = awq_to_marlin_zero_points_undo_interleave
      [of sample_env sample_qzeros 2 1 16 q2, THEN conjunct2, THEN conjunct2, THEN conjunct2,
       THEN conjunct2, THEN conjunct2, THEN conjunct2, THEN mp, OF h2]
  have "awq_to_marlin_zero_points sample_env sample_qzeros 1 8 4 =
     call_ext (marlin_zero_points sample_env
       \<lparr>dtype = Int32, shape = [1, 8], data = [0, 4, 1, 5, 2, 6, 3, 7]\<rparr> 1 8 4)"
    unfolding t4 by (simp add: upt_0_8)
  moreover have "awq_to_marlin_zero_points sample_env ?z8 1 4 8 =
     call_ext (marlin_zero_points sample_env
       \<lparr>dtype = Int32, shape = [1, 4], data = [0, 2, 1, 3]\<rparr> 1 4 8)"
    unfolding t8 by (simp add: upt_0_4)
  ultimately show ?thesis using t2 by simp
qed

text \<open>
  C9, as amended. In each of the four loading operations of \<^verbatim>\<open>GPTQMarlinWeightsLoader\<close>
  (\<^verbatim>\<open>get_weights\<close>, \<^verbatim>\<open>get_weights_col_packed\<close>, \<^verbatim>\<open>get_multi_weights_col\<close>,
  \<^verbatim>\<open>get_weights_row\<close>), a \<open>qweight\<close> lookup that raises a \<open>RuntimeError\<close> surfaces as
  the loader's \<open>RuntimeError\<close> with the hint that the model must already be quantized.
  Once \<open>qweight\<close> has been found, a failing lookup of \<open>qzeros\<close> (asymmetric case),
  \<open>g_idx\<close> (every method but \<open>awq\<close>) or \<open>scales\<close> ends the operation with the
  exception that the storage raised, as it is: no hint is added.
\<close>

theorem loader_missing_tensor:
  "((get_tensor W (pfx @ ''.qweight'') = Inl (c, m) \<and> is_RuntimeError c \<longrightarrow>
      get_weights E self W pfx = Inl (Raise RuntimeError (CannotLoadForRepacking (self_quantize self))))
   \<and> (get_tensor W (pfx @ ''.qweight'') = Inr t \<longrightarrow>
        (\<not> self_sym self \<and> get_tensor W (pfx @ ''.qzeros'') = Inl x \<longrightarrow>
           get_weights E self W pfx = Inl (ext_raise x))
      \<and> ((self_sym self \<or> (\<exists>z. get_tensor W (pfx @ ''.qzeros'') = Inr z))
          \<and> self_quant_method self \<noteq> ''awq'' \<and> get_tensor W (pfx @ ''.g_idx'') = Inl x \<longrightarrow>
           get_weights E self W pfx = Inl (ext_raise x))
      \<and> ((self_sym self \<or> (\<exists>z. get_tensor W (pfx @ ''.qzeros'') = Inr z))
          \<and> (self_quant_method self = ''awq'' \<or> (\<exists>g. get_tensor W (pfx @ ''.g_idx'') = Inr g))
          \<and> get_tensor W (pfx @ ''.scales'') = Inl x \<longrightarrow>
           get_weights E self W pfx = Inl (ext_raise x))))
   \<and> ((get_packed_sharded W (pfx @ ''.qweight'') 1 bs = Inl (c, m) \<and> is_RuntimeError c \<longrightarrow>
      get_weights_col_packed E self W pfx bs = Inl (Raise RuntimeError (CannotLoad (self_quantize self))))
   \<and> (get_packed_sharded W (pfx @ ''.qweight'') 1 bs = Inr t \<longrightarrow>
        (get_packed_sharded W (pfx @ ''.scales'') 1 bs = Inl x \<longrightarrow>
           get_weights_col_packed E self W pfx bs = Inl (ext_raise x))
      \<and> ((\<exists>s. get_packed_sharded W (pfx @ ''.scales'') 1 bs = Inr s)
          \<and> \<not> self_sym self \<and> get_packed_sharded W (pfx @ ''.qzeros'') 1 bs = Inl x \<longrightarrow>
           get_weights_col_packed E self W pfx bs = Inl (ext_raise x))
      \<and> ((\<exists>s. get_packed_sharded W (pfx @ ''.scales'') 1 bs = Inr s)
          \<and> (self_sym self \<or> (\<exists>z. get_packed_sharded W (pfx @ ''.qzeros'') 1 bs = Inr z))
          \<and> self_quant_method self \<noteq> ''awq'' \<and> get_tensor W (pfx @ ''.g_idx'') = Inl x \<longrightarrow>
           get_weights_col_packed E self W pfx bs = Inl (ext_raise x))))
   \<and> (((\<exists>p \<in> set prefixes. \<exists>x. get_sharded W (p @ ''.qweight'') 1 = Inl x)
      \<and> (\<forall>p \<in> set prefixes. \<forall>c m. get_sharded W (p @ ''.qweight'') 1 = Inl (c, m)
             \<longrightarrow> is_RuntimeError c) \<longrightarrow>
      get_multi_weights_col E self W prefixes dim
        = Inl (Raise RuntimeError (CannotLoad (self_quantize self))))
   \<and> (cat_sharded E W prefixes ''.qweight'' = Inr t \<longrightarrow>
        ((\<exists>p \<in> set prefixes. \<exists>x. get_sharded W (p @ ''.scales'') 1 = Inl x) \<longrightarrow>
           (\<exists>p \<in> set prefixes. \<exists>x. get_sharded W (p @ ''.scales'') 1 = Inl x
              \<and> get_multi_weights_col E self W prefixes dim = Inl (ext_raise x)))
      \<and> ((\<exists>s. cat_sharded E W prefixes ''.scales'' = Inr s) \<and> \<not> self_sym self
          \<and> (\<exists>p \<in> set prefixes. \<exists>x. get_sharded W (p @ ''.qzeros'') 1 = Inl x) \<longrightarrow>
           (\<exists>p \<in> set prefixes. \<exists>x. get_sharded W (p @ ''.qzeros'') 1 = Inl x
              \<and> get_multi_weights_col E self W prefixes dim = Inl (ext_raise x)))
      \<and> ((\<exists>s. cat_sharded E W prefixes ''.scales'' = Inr s)
          \<and> (self_sym self \<or> (\<exists>z. cat_sharded E W prefixes ''.qzeros'' = Inr z))
          \<and> self_quant_method self \<noteq> ''awq''
          \<and> (\<exists>p \<in> set prefixes. \<exists>x. get_tensor W (p @ ''.g_idx'') = Inl x) \<longrightarrow>
           (\<exists>p \<in> set prefixes. \<exists>x. get_tensor W (p @ ''.g_idx'') = Inl x
              \<and> get_multi_weights_col E self W prefixes dim = Inl (ext_raise x)))))
   \<and> ((get_sharded W (pfx @ ''.qweight'') 0 = Inl (c, m) \<and> is_RuntimeError c \<longrightarrow>
      get_weights_row E self W pfx = Inl (Raise RuntimeError (CannotLoadForRepacking (self_quantize self))))
   \<and> (get_sharded W (pfx @ ''.qweight'') 0 = Inr t \<longrightarrow>
        (\<not> self_sym self
          \<and> (if self_desc_act self \<or> self_groupsize self = - 1
               then get_tensor W (pfx @ ''.qzeros'')
               else get_sharded W (pfx @ ''.qzeros'') 0) = Inl x \<longrightarrow>
           get_weights_row E self W pfx = Inl (ext_raise x))
      \<and> ((self_sym self
            \<or> (\<exists>z. (if self_desc_act self \<or> self_groupsize self = - 1
                      then get_tensor W (pfx @ ''.qzeros'')
                      else get_sharded W (pfx @ ''.qzeros'') 0) = Inr z))
          \<and> self_quant_method self \<noteq> ''awq'' \<and> get_sharded W (pfx @ ''.g_idx'') 0 = Inl x \<longrightarrow>
           get_weights_row E self W pfx = Inl (ext_raise x))
      \<and> ((self_sym self
            \<or> (\<exists>z. (if self_desc_act self \<or> self_groupsize self = - 1
                      then get_tensor W (pfx @ ''.qzeros'')
                      else get_sharded W (pfx @ ''.qzeros'') 0) = Inr z))
          \<and> (self_quant_method self = ''awq'' \<or> (\<exists>g. get_sharded W (pfx @ ''.g_idx'') 0 = Inr g))
          \<and> (if self_desc_act self \<or> self_groupsize self = - 1
               then get_tensor W (pfx @ ''.scales'')
               else get_sharded W (pfx @ ''.scales'') 0) = Inl x \<longrightarrow>
           get_weights_row E self W pfx = Inl (ext_raise x))))"
  by (rule conjI [OF get_weights_missing
        conjI [OF get_weights_col_packed_missing
          conjI [OF get_multi_weights_col_missing get_weights_row_missing]]])

theorem loader_missing_tensor_witness:
  "get_weights sample_env (sample_loader ''gptq'' True) (storage_weights []) ''m''
     = Inl (Raise RuntimeError (CannotLoadForRepacking ''gptq''))
   \<and> get_weights sample_env (sample_loader ''gptq'' True)
       (storage_weights [(''m.qweight'', sample_qweight)]) ''m''
     = Inl (Raise RuntimeError (External ''weight m.g_idx does not exist''))"
proof -
  let ?W0 = "storage_weights []"
  let ?W1 = "storage_weights [(''m.qweight'', sample_qweight)]"
  let ?self = "sample_loader ''gptq'' True"
  have h0: "get_tensor ?W0 (''m'' @ ''.qweight'')
              = Inl (RuntimeError, ''weight m.qweight does not exist'')
            \<and> is_RuntimeError RuntimeError"
    by (simp add: loader_defs)
  have q1: "get_tensor ?W1 (''m'' @ ''.qweight'') = Inr sample_qweight"
    by (simp add: loader_defs)
  have h1: "(self_sym ?self \<or> (\<exists>z. get_tensor ?W1 (''m'' @ ''.qzeros'') = Inr z))
          \<and> self_quant_method ?self \<noteq> ''awq''
          \<and> get_tensor ?W1 (''m'' @ ''.g_idx'')
              = Inl (RuntimeError, ''weight m.g_idx does not exist'')"
    by (simp add: loader_defs)
  note t0 = loader_missing_tensor [of ?W0 "''m''" RuntimeError
      "''weight m.qweight does not exist''" sample_env ?self,
      THEN conjunct1, THEN conjunct1, THEN mp, OF h0]
  note t1 = loader_missing_tensor [of ?W1 "''m''" _ _ sample_env ?self sample_qweight
      "(RuntimeError, ''weight m.g_idx does not exist'')",
      THEN conjunct1, THEN conjunct2, THEN mp, OF q1, THEN conjunct2, THEN conjunct1, THEN mp,
      OF h1]
  from t0 t1 show ?thesis by (simp add: sample_loader_def)
qed

text \<open>
  The claim as first stated fails: with \<open>qweight\<close> stored, a missing \<open>scales\<close>,
  \<open>qzeros\<close> or \<open>g_idx\<close> tensor surfaces as the storage's own exception, which carries
  no remediation hint.
\<close>

theorem loader_missing_tensor_counterexample:
  "get_weights sample_env (sample_loader ''awq'' True)
       (storage_weights [(''m.qweight'', sample_qweight)]) ''m''
     = Inl (Raise RuntimeError (External ''weight m.scales does not exist''))
   \<and> get_weights sample_env (sample_loader ''awq'' False)
       (storage_weights [(''m.qweight'', sample_qweight), (''m.scales'', sample_scales)]) ''m''
     = Inl (Raise RuntimeError (External ''weight m.qzeros does not exist''))
   \<and> get_weights_row sample_env (sample_loader ''gptq'' True)
       (storage_weights [(''m.qweight'', sample_qweight), (''m.scales'', sample_scales)]) ''m''
     = Inl (Raise RuntimeError (External ''weight m.g_idx does not exist''))"
  by (simp add: get_weights_def get_weights_row_def loader_defs)

end
